theory Spec2Isabelle
  imports Main "HOL-Library.Log_Nat" "HOL-Library.Sublist" "HOL-Library.AList"
begin

section \<open>The language runtime: strings\<close>

text \<open>
  The server is JavaScript. Its strings are modelled as \<open>string\<close>, one \<open>char\<close> per code
  unit, for texts whose code units lie below 256. The functions of this section are the
  built-ins of \<open>String.prototype\<close> that \<open>server.js\<close> calls, written after ECMAScript.
\<close>

definition is_white_space :: "char \<Rightarrow> bool" where
  \<comment> \<open>WhiteSpace and LineTerminator below 256: TAB, LF, VT, FF, CR, SP, NBSP.\<close>
  "is_white_space c = (of_char c \<in> {9, 10, 11, 12, 13, 32, 160 :: nat})"

definition trim :: "string \<Rightarrow> string" where
  "trim s = rev (dropWhile is_white_space (rev (dropWhile is_white_space s)))"

fun indexOf_from :: "nat \<Rightarrow> string \<Rightarrow> string \<Rightarrow> int" where
  "indexOf_from i [] pat = (if pat = [] then int i else - 1)"
| "indexOf_from i (c # cs) pat =
     (if prefix pat (c # cs) then int i else indexOf_from (Suc i) cs pat)"

definition indexOf :: "string \<Rightarrow> string \<Rightarrow> int" where
  "indexOf s pat = indexOf_from 0 s pat"

fun lastIndexOf_from :: "nat \<Rightarrow> string \<Rightarrow> string \<Rightarrow> int \<Rightarrow> int" where
  "lastIndexOf_from i [] pat found = (if pat = [] then int i else found)"
| "lastIndexOf_from i (c # cs) pat found =
     lastIndexOf_from (Suc i) cs pat (if prefix pat (c # cs) then int i else found)"

definition lastIndexOf :: "string \<Rightarrow> string \<Rightarrow> int" where
  "lastIndexOf s pat = lastIndexOf_from 0 s pat (- 1)"

definition substring :: "string \<Rightarrow> int \<Rightarrow> int \<Rightarrow> string" where
  \<comment> \<open>\<open>s.substring(a, b)\<close>: both ends are clamped to \<open>0..length\<close> and swapped when out of order.\<close>
  "substring s a b =
     (let len = int (length s);
          fs = min (max a 0) len;
          fe = min (max b 0) len
      in take (nat (max fs fe - min fs fe)) (drop (nat (min fs fe)) s))"

definition substring_from :: "string \<Rightarrow> int \<Rightarrow> string" where
  \<comment> \<open>\<open>s.substring(a)\<close>: the end defaults to the length.\<close>
  "substring_from s a = substring s a (int (length s))"

definition replace_first :: "string \<Rightarrow> string \<Rightarrow> string \<Rightarrow> string" where
  \<comment> \<open>\<open>s.replace(pat, rep)\<close> with a string pattern: the first occurrence only. The
     replacements of the source are \<open>''\<close> and \<open>' '\<close>, which hold no \<open>$\<close> pattern.\<close>
  "replace_first s pat rep =
     (let i = indexOf s pat
      in if i < 0 then s else take (nat i) s @ rep @ drop (nat i + length pat) s)"

definition is_upper :: "char \<Rightarrow> bool" where
  "is_upper c = (65 \<le> (of_char c :: nat) \<and> (of_char c :: nat) \<le> 90)"

definition is_lower :: "char \<Rightarrow> bool" where
  "is_lower c = (97 \<le> (of_char c :: nat) \<and> (of_char c :: nat) \<le> 122)"

definition is_digit :: "char \<Rightarrow> bool" where
  "is_digit c = (48 \<le> (of_char c :: nat) \<and> (of_char c :: nat) \<le> 57)"

definition upper_char :: "char \<Rightarrow> char" where
  "upper_char c = (if is_lower c then char_of (of_char c - 32 :: nat) else c)"

definition toUpperCase :: "string \<Rightarrow> string" where
  \<comment> \<open>The source calls \<open>toUpperCase\<close> only on a register number that passed \<open>REGNO_RE\<close>,
     so on ASCII letters and digits; other code units are left as they are here.\<close>
  "toUpperCase s = map upper_char s"

fun includes_ci :: "string \<Rightarrow> string \<Rightarrow> bool" where
  \<comment> \<open>\<open>/pat/i.test(s)\<close> for a pattern of ASCII letters, given in upper case: some
     position of \<open>s\<close> starts with the pattern, letter case ignored.\<close>
  "includes_ci PAT [] = (PAT = [])"
| "includes_ci PAT (c # cs) =
     (prefix PAT (toUpperCase (c # cs)) \<or> includes_ci PAT cs)"

definition nth_text :: "string list \<Rightarrow> nat \<Rightarrow> string" where
  \<comment> \<open>\<open>$(cells[i]).text()\<close>: the text of a cell, empty when the index is out of range
     (cheerio wraps \<open>undefined\<close> into an empty selection).\<close>
  "nth_text cells i = (if i < length cells then cells ! i else [])"

definition last_text :: "string list \<Rightarrow> string" where
  \<comment> \<open>\<open>.last().text()\<close> of a selection: empty for an empty selection.\<close>
  "last_text cells = (if cells = [] then [] else last cells)"

section \<open>The language runtime: numbers\<close>

text \<open>
  A JavaScript number is an IEEE 754 binary64 value. \<open>Fin q\<close> is the finite value \<open>q\<close>, a
  rational that binary64 represents exactly; the two zeros are one value \<open>Fin 0\<close>, which
  the source cannot tell apart (it never divides by a zero and prints both as \<open>0\<close>).
  Every arithmetic result is rounded by \<open>round_binary64\<close>: to the nearest representable
  value, ties to the even significand, and to an infinity when the rounded magnitude
  reaches \<open>2\<^bsup>1024\<^esup>\<close>.
\<close>

datatype number = NaN | PosInf | NegInf | Fin rat

definition pow2 :: "int \<Rightarrow> rat" where
  "pow2 e = (if 0 \<le> e then of_int (2 ^ nat e) else 1 / of_int (2 ^ nat (- e)))"

definition pow10 :: "int \<Rightarrow> rat" where
  "pow10 e = (if 0 \<le> e then of_int (10 ^ nat e) else 1 / of_int (10 ^ nat (- e)))"

definition ilog :: "nat \<Rightarrow> rat \<Rightarrow> int" where
  \<comment> \<open>\<open>\<lfloor>log\<^sub>b q\<rfloor>\<close> for \<open>q > 0\<close>: one less than the number of digits of \<open>\<lfloor>q\<rfloor>\<close> in base
     \<open>b\<close> from 1 on, and below 1 the negated number of digits of \<open>\<lceil>1 / q\<rceil> - 1\<close>.\<close>
  "ilog b q =
     (if 1 \<le> q then int (floorlog b (nat \<lfloor>q\<rfloor>)) - 1
      else - int (floorlog b (nat (\<lceil>1 / q\<rceil> - 1))))"

definition round_half_even :: "rat \<Rightarrow> int" where
  "round_half_even m =
     (let f = \<lfloor>m\<rfloor>; r = m - of_int f
      in if r < 1 / 2 then f else if 1 / 2 < r then f + 1 else if even f then f else f + 1)"

definition round_binary64 :: "rat \<Rightarrow> number" where
  "round_binary64 q =
     (if q = 0 then Fin 0
      else let a = \<bar>q\<bar>;
               e = max (ilog 2 a) (- 1022);
               u = pow2 (e - 52);
               v = of_int (round_half_even (a / u)) * u
           in if 1024 \<le> ilog 2 v then (if 0 < q then PosInf else NegInf)
              else Fin (if 0 < q then v else - v))"

definition isNaN :: "number \<Rightarrow> bool" where
  "isNaN x = (x = NaN)"

definition truthy :: "number \<Rightarrow> bool" where
  \<comment> \<open>ToBoolean of a number: false for NaN and for zero.\<close>
  "truthy x = (x \<noteq> NaN \<and> x \<noteq> Fin 0)"

definition or_else :: "number \<Rightarrow> number \<Rightarrow> number" where
  \<comment> \<open>\<open>a || b\<close> on numbers.\<close>
  "or_else a b = (if truthy a then a else b)"

definition is_negative :: "number \<Rightarrow> bool" where
  "is_negative x = (case x of NegInf \<Rightarrow> True | Fin q \<Rightarrow> q < 0 | _ \<Rightarrow> False)"

definition js_add :: "number \<Rightarrow> number \<Rightarrow> number" where
  "js_add a b =
     (case (a, b) of
        (NaN, _) \<Rightarrow> NaN
      | (_, NaN) \<Rightarrow> NaN
      | (Fin x, Fin y) \<Rightarrow> round_binary64 (x + y)
      | (PosInf, NegInf) \<Rightarrow> NaN
      | (NegInf, PosInf) \<Rightarrow> NaN
      | (Fin x, y) \<Rightarrow> y
      | (x, _) \<Rightarrow> x)"

definition js_neg :: "number \<Rightarrow> number" where
  "js_neg a = (case a of NaN \<Rightarrow> NaN | PosInf \<Rightarrow> NegInf | NegInf \<Rightarrow> PosInf | Fin x \<Rightarrow> Fin (- x))"

definition js_sub :: "number \<Rightarrow> number \<Rightarrow> number" where
  "js_sub a b = js_add a (js_neg b)"

definition signed_inf :: "bool \<Rightarrow> number" where
  "signed_inf neg = (if neg then NegInf else PosInf)"

definition js_mul :: "number \<Rightarrow> number \<Rightarrow> number" where
  "js_mul a b =
     (case (a, b) of
        (NaN, _) \<Rightarrow> NaN
      | (_, NaN) \<Rightarrow> NaN
      | (Fin x, Fin y) \<Rightarrow> round_binary64 (x * y)
      | _ \<Rightarrow> if a = Fin 0 \<or> b = Fin 0 then NaN
             else signed_inf (is_negative a \<noteq> is_negative b))"

definition js_div :: "number \<Rightarrow> number \<Rightarrow> number" where
  \<comment> \<open>The quotient by a zero has the sign of the zero in JavaScript; the zero of this
     model is the positive one. The source divides by a truthy total only.\<close>
  "js_div a b =
     (case (a, b) of
        (NaN, _) \<Rightarrow> NaN
      | (_, NaN) \<Rightarrow> NaN
      | (Fin x, Fin y) \<Rightarrow>
          if y = 0 then (if x = 0 then NaN else signed_inf (x < 0))
          else round_binary64 (x / y)
      | (Fin x, _) \<Rightarrow> Fin 0
      | (_, Fin y) \<Rightarrow> signed_inf (is_negative a \<noteq> (y < 0))
      | _ \<Rightarrow> NaN)"

definition js_ge :: "number \<Rightarrow> number \<Rightarrow> bool" where
  \<comment> \<open>\<open>a >= b\<close>: false as soon as one side is NaN.\<close>
  "js_ge a b =
     (case (a, b) of
        (NaN, _) \<Rightarrow> False
      | (_, NaN) \<Rightarrow> False
      | (Fin x, Fin y) \<Rightarrow> y \<le> x
      | (PosInf, _) \<Rightarrow> True
      | (_, NegInf) \<Rightarrow> True
      | _ \<Rightarrow> False)"

definition digit_value :: "char \<Rightarrow> nat" where
  \<comment> \<open>The value of a digit of radix up to 16: \<open>0-9\<close>, \<open>a-f\<close>, \<open>A-F\<close>; 16 for any other code unit.\<close>
  "digit_value c =
     (let n = (of_char c :: nat)
      in if 48 \<le> n \<and> n \<le> 57 then n - 48
         else if 97 \<le> n \<and> n \<le> 102 then n - 87
         else if 65 \<le> n \<and> n \<le> 70 then n - 55
         else 16)"

definition digits_value :: "nat \<Rightarrow> string \<Rightarrow> nat" where
  "digits_value R ds = foldl (\<lambda>acc c. acc * R + digit_value c) 0 ds"

definition has_sign :: "string \<Rightarrow> bool" where
  "has_sign s = (s \<noteq> [] \<and> (hd s = CHR ''+'' \<or> hd s = CHR ''-''))"

definition strip_sign :: "string \<Rightarrow> string" where
  "strip_sign s = (if has_sign s then tl s else s)"

definition signed :: "string \<Rightarrow> rat \<Rightarrow> rat" where
  \<comment> \<open>The value with the sign the text starts with.\<close>
  "signed s q = (if s \<noteq> [] \<and> hd s = CHR ''-'' then - q else q)"

definition parseInt :: "string \<Rightarrow> number" where
  \<comment> \<open>\<open>parseInt(str)\<close> with no radix: leading white space, a sign, \<open>0x\<close> for radix 16,
     then the longest run of digits; NaN when the run is empty. Past 20 significant
     digits ECMAScript lets an implementation approximate; the value here is the exact one,
     rounded.\<close>
  "parseInt str =
     (let s = dropWhile is_white_space str;
          s1 = strip_sign s;
          hex = (prefix ''0x'' s1 \<or> prefix ''0X'' s1);
          R = (if hex then 16 else 10);
          z = takeWhile (\<lambda>c. digit_value c < R) (if hex then drop 2 s1 else s1)
      in if z = [] then NaN
         else round_binary64 (signed s (of_nat (digits_value R z))))"

definition exponent_part :: "string \<Rightarrow> int" where
  \<comment> \<open>ExponentPart at the start of the text: \<open>e\<close> or \<open>E\<close>, a sign, digits; 0 when the
     text does not start with one.\<close>
  "exponent_part r =
     (if r \<noteq> [] \<and> (hd r = CHR ''e'' \<or> hd r = CHR ''E'')
      then let ds = takeWhile is_digit (strip_sign (tl r))
           in if ds = [] then 0
              else (if prefix ''-'' (tl r) then - int (digits_value 10 ds)
                    else int (digits_value 10 ds))
      else 0)"

definition parseFloat :: "string \<Rightarrow> number" where
  \<comment> \<open>\<open>parseFloat(str)\<close>: leading white space, then the longest prefix that is a
     StrDecimalLiteral (\<open>Infinity\<close>, or digits with an optional fraction and exponent,
     signed); NaN when no prefix is one.\<close>
  "parseFloat str =
     (let s = dropWhile is_white_space str;
          s1 = strip_sign s
      in if prefix ''Infinity'' s1 then signed_inf (prefix ''-'' s)
         else let ip = takeWhile is_digit s1;
                  r1 = drop (length ip) s1;
                  dot = prefix ''.'' r1;
                  fp = (if dot then takeWhile is_digit (tl r1) else []);
                  r2 = (if dot then drop (length fp) (tl r1) else r1)
              in if ip = [] \<and> fp = [] then NaN
                 else round_binary64
                        (signed s (of_nat (digits_value 10 (ip @ fp))
                                   * pow10 (exponent_part r2 - int (length fp)))))"

function digits10 :: "nat \<Rightarrow> string" where
  \<comment> \<open>The decimal digits of a natural number, \<open>0\<close> for zero.\<close>
  "digits10 n =
     (if n < 10 then [''0123456789'' ! n]
      else digits10 (n div 10) @ [''0123456789'' ! (n mod 10)])"
  by pat_completeness auto
termination
  by (relation "measure (\<lambda>n. n)") auto

declare digits10.simps [simp del]

text \<open>
  \<open>Number::toString\<close> prints the shortest digit string \<open>s\<close> (of \<open>k\<close> digits) and exponent
  \<open>n\<close> with \<open>s \<times> 10\<^bsup>n-k\<^esup>\<close> rounding to the number, the closest such \<open>s\<close> when several
  have \<open>k\<close> digits. With \<open>10\<^bsup>n0-1\<^esup> \<le> x < 10\<^bsup>n0\<^esup>\<close> the candidates of \<open>k\<close> digits are the two
  neighbours of \<open>x / 10\<^bsup>n0-k\<^esup>\<close> and the power \<open>10\<^bsup>n0\<^esup>\<close> itself; 17 digits always suffice.
\<close>

definition candidates :: "rat \<Rightarrow> int \<Rightarrow> nat \<Rightarrow> (nat \<times> int) list" where
  "candidates x n0 k =
     (let f = nat \<lfloor>x / pow10 (n0 - int k)\<rfloor>
      in filter (\<lambda>(s, n). 10 ^ (k - 1) \<le> s \<and> s < 10 ^ k
                          \<and> round_binary64 (of_nat s * pow10 (n - int k)) = Fin x)
           [(f, n0), (f + 1, n0), (10 ^ (k - 1), n0 + 1)])"

definition closest :: "rat \<Rightarrow> nat \<Rightarrow> (nat \<times> int) list \<Rightarrow> (nat \<times> int)" where
  \<comment> \<open>The candidate closest to \<open>x\<close>, an even \<open>s\<close> on a tie.\<close>
  "closest x k cs =
     foldl (\<lambda>(s, n) (s', n').
              let d = \<bar>of_nat s * pow10 (n - int k) - x\<bar>;
                  d' = \<bar>of_nat s' * pow10 (n' - int k) - x\<bar>
              in if d' < d \<or> (d' = d \<and> even s') then (s', n') else (s, n))
           (hd cs) (tl cs)"

fun shortest_digits :: "rat \<Rightarrow> int \<Rightarrow> nat \<Rightarrow> nat \<Rightarrow> (nat \<times> int \<times> nat)" where
  \<comment> \<open>\<open>(s, n, k)\<close> for the positive \<open>x\<close>, trying \<open>k\<close>, \<open>k + 1\<close>, ... with \<open>fuel\<close> lengths left.\<close>
  "shortest_digits x n0 k 0 = (nat \<lfloor>x / pow10 (n0 - int k)\<rfloor>, n0, k)"
| "shortest_digits x n0 k (Suc fuel) =
     (let cs = candidates x n0 k
      in if cs = [] then shortest_digits x n0 (Suc k) fuel
         else (fst (closest x k cs), snd (closest x k cs), k))"

definition pos_toString :: "rat \<Rightarrow> string" where
  "pos_toString x =
     (let (s, n, k) = shortest_digits x (ilog 10 x + 1) 1 17;
          ds = digits10 s;
          ex = (if 0 < n - 1 then ''e+'' else ''e-'') @ digits10 (nat \<bar>n - 1\<bar>)
      in if int k \<le> n \<and> n \<le> 21 then ds @ replicate (nat n - k) CHR ''0''
         else if 0 < n \<and> n \<le> 21 then take (nat n) ds @ ''.'' @ drop (nat n) ds
         else if - 6 < n \<and> n \<le> 0 then ''0.'' @ replicate (nat (- n)) CHR ''0'' @ ds
         else if k = 1 then ds @ ex
         else [hd ds] @ ''.'' @ tl ds @ ex)"

definition toString :: "number \<Rightarrow> string" where
  "toString x =
     (case x of
        NaN \<Rightarrow> ''NaN''
      | PosInf \<Rightarrow> ''Infinity''
      | NegInf \<Rightarrow> ''-Infinity''
      | Fin q \<Rightarrow> if q = 0 then ''0''
                 else if q < 0 then ''-'' @ pos_toString (- q)
                 else pos_toString q)"

definition fixed_digits :: "nat \<Rightarrow> nat \<Rightarrow> string" where
  \<comment> \<open>The digits of \<open>n\<close>, padded with zeros to \<open>f + 1\<close> digits, with a point before the
     last \<open>f\<close>.\<close>
  "fixed_digits n f =
     (let ds = digits10 n;
          ps = replicate (f + 1 - length ds) CHR ''0'' @ ds
      in take (length ps - f) ps @ ''.'' @ drop (length ps - f) ps)"

definition toFixed :: "number \<Rightarrow> nat \<Rightarrow> string" where
  \<comment> \<open>\<open>x.toFixed(f)\<close> for \<open>f\<close> from 1 to 100: the integer \<open>n\<close> with \<open>n / 10\<^bsup>f\<^esup>\<close> closest to the
     exact value (the larger on a tie), printed with \<open>f\<close> decimals; the plain \<open>toString\<close>
     for a value that is not finite or is \<open>10\<^bsup>21\<^esup>\<close> or more.\<close>
  "toFixed x f =
     (case x of
        Fin q \<Rightarrow>
          (let a = \<bar>q\<bar>;
               m = (if pow10 21 \<le> a then toString (Fin a)
                    else fixed_digits (nat \<lfloor>a * pow10 (int f) + 1 / 2\<rfloor>) f)
           in if q < 0 then ''-'' @ m else m)
      | _ \<Rightarrow> toString x)"

section \<open>Records of the data model\<close>

record personal_info =
  name :: string
  admissionNo :: string
  gender :: string
  dob :: string
  branch :: string
  semester :: string
  batch :: string
  college :: string

record academic_info =
  cgpa :: string
  sgpa :: string
  percentage :: string

record breakdown_item =
  category :: string
  points :: number

record activity_points =
  points_total :: string
  required :: string
  status :: string
  breakdown :: "breakdown_item list"

record credit_summary =
  earned :: string
  credits_required :: string
  courseCredits :: string
  activityCredits :: string

record subject =
  code :: string
  subject_name :: string
  subject_credits :: string
  grade :: string
  gradePoint :: string

record semester_result =
  semester_label :: string
  subjects :: "subject list"

record attendance_subject =
  subject_title :: string
  attended :: number
  attended_total :: number
  subject_percentage :: string

record attendance_record =
  overall :: string
  attendance_subjects :: "attendance_subject list"
  lastUpdated :: "string option"

record profile =
  registerNo :: string
  personalInfo :: personal_info
  academicInfo :: academic_info
  attendance :: attendance_record
  activityPoints :: activity_points
  credits :: credit_summary
  semesterResults :: "semester_result list"

record exam =
  examName :: string
  examDate :: string
  exam_sgpa :: string
  exam_cgpa :: string
  exam_subjects :: "subject list"

record results_record =
  results_registerNo :: string
  studentName :: string
  results :: "exam list"
  fetchedFrom :: string

record link =
  link_title :: string
  url :: string

record announcement =
  title :: string
  date :: string
  description :: string
  links :: "link list"

record announcements_record =
  announcements :: "announcement list"
  count :: nat
  announcements_lastUpdated :: string

text \<open>
  What a handler sends: \<open>res.status(n).json(body)\<close>. A body is an error object (its keys
  and values in order) or one of the records, with or without the \<open>cached: true\<close> key
  that \<open>{ ...cached, cached: true }\<close> adds.
\<close>

datatype record_value =
  VProfile profile
| VResults results_record
| VAnnouncements announcements_record
| VAttendance attendance_record

datatype payload =
  Error_body "(string \<times> string) list"
| Record_body record_value bool

datatype reply = Reply (status_code: nat) (body: payload)

section \<open>The cache store\<close>

text \<open>
  \<open>new NodeCache({ stdTTL: 1800 })\<close>: a store of values under string keys, each with the
  time in milliseconds after which it is expired. \<open>get\<close> returns nothing for a missing or
  an expired key, \<open>set\<close> replaces the entry and gives it 1800 seconds from now.
\<close>

type_synonym cache = "string \<rightharpoonup> (record_value \<times> nat)"

definition stdTTL :: nat where
  "stdTTL = 1800"

definition cache_get :: "cache \<Rightarrow> nat \<Rightarrow> string \<Rightarrow> record_value option" where
  "cache_get c now k =
     (case c k of
        None \<Rightarrow> None
      | Some (v, t) \<Rightarrow> if t < now then None else Some v)"

definition cache_set :: "cache \<Rightarrow> nat \<Rightarrow> string \<Rightarrow> record_value \<Rightarrow> cache" where
  "cache_set c now k v = c(k \<mapsto> (v, now + stdTTL * 1000))"

section \<open>The HTTP client\<close>

record request =
  http_method :: string
  request_url :: string
  headers :: "(string \<times> string) list"

text \<open>
  \<open>response.data\<close> is what axios makes of the body: with no \<open>responseType\<close> set it
  tries \<open>JSON.parse\<close> on the text and keeps the text when that fails. So the body \<open>123\<close>
  arrives as a number, \<open>null\<close> as null, \<open>true\<close> as a boolean, a JSON object or array as
  an object (kept here by its JSON text), and markup as the string it is.
\<close>

datatype js_value = JNull | JBool bool | JNum number | JStr string | JObject string

definition truthy_value :: "js_value \<Rightarrow> bool" where
  \<comment> \<open>ToBoolean: false for \<open>null\<close>, \<open>false\<close>, zero, NaN and the empty string.\<close>
  "truthy_value v =
     (case v of
        JNull \<Rightarrow> False
      | JBool b \<Rightarrow> b
      | JNum n \<Rightarrow> truthy n
      | JStr s \<Rightarrow> s \<noteq> []
      | JObject j \<Rightarrow> True)"


definition or_empty :: "js_value \<Rightarrow> js_value" where
  \<comment> \<open>\<open>response.data || ''\<close>\<close>
  "or_empty v = (if truthy_value v then v else JStr [])"

record response =
  http_status :: nat
  data :: js_value

record options =
  opt_method :: string
  opt_headers :: "(string \<times> string) list"

datatype js_error = Js_error (error_name: string) (message: string) (response_status: "nat option")

definition error_text :: "js_error \<Rightarrow> string" where
  \<comment> \<open>\<open>err?.message || String(err)\<close>: an error with an empty message prints as its name.\<close>
  "error_text err = (if message err \<noteq> [] then message err else error_name err)"

text \<open>
  The effects of a handler run, in the order they happen: reads and writes of the cache by
  key, a call of \<open>loginStudent\<close> with its credentials, the launch and the release of the
  browser, an attempt of \<open>axiosInstance.request\<close>, a backoff wait in milliseconds.
\<close>

datatype event =
  CacheGet string
| CacheSet string
| Login string string
| BrowserLaunch
| BrowserClose
| HttpAttempt request
| Backoff nat

definition defaultHeaders :: "(string \<times> string) list" where
  "defaultHeaders =
     [(''User-Agent'', ''Mozilla/5.0 (Windows NT 10.0; Win64; x64) AppleWebKit/537.36''),
      (''Accept'', ''text/html,application/xhtml+xml,application/xml;q=0.9,*/*;q=0.8''),
      (''Accept-Language'', ''en-US,en;q=0.9''),
      (''Referer'', ''https://app.ktu.edu.in/'')]"

definition merge_headers :: "(string \<times> string) list \<Rightarrow> (string \<times> string) list \<Rightarrow> (string \<times> string) list" where
  \<comment> \<open>\<open>{ ...base, ...extra }\<close>: a key of \<open>extra\<close> replaces the value in place or is added last.\<close>
  "merge_headers base extra = foldl (\<lambda>acc (k, v). AList.update k v acc) base extra"

text \<open>
  The network is an oracle: \<open>net n req\<close> is what the \<open>n\<close>-th attempt of the handler run
  gets for the request \<open>req\<close>, a response or the error that \<open>axiosInstance.request\<close>
  throws. \<open>makeRequest\<close> returns its result (\<open>Inl\<close> the error it throws, \<open>Inr None\<close> for
  \<open>undefined\<close>), the attempt counter and the effects.
\<close>

function makeRequest_loop ::
  "(nat \<Rightarrow> request \<Rightarrow> js_error + response) \<Rightarrow> request \<Rightarrow> nat \<Rightarrow> nat \<Rightarrow> nat
   \<Rightarrow> (js_error + response option) \<times> nat \<times> event list" where
  "makeRequest_loop net opts retries i tick =
     (if i < retries then
        (case net tick opts of
           Inr resp \<Rightarrow> (Inr (Some resp), Suc tick, [HttpAttempt opts])
         | Inl err \<Rightarrow>
             if i = retries - 1 then (Inl err, Suc tick, [HttpAttempt opts])
             else (case makeRequest_loop net opts retries (Suc i) (Suc tick) of
                     (r, tick', tr) \<Rightarrow>
                       (r, tick', HttpAttempt opts # Backoff (1000 * (i + 1)) # tr)))
      else (Inr None, tick, []))"
  by pat_completeness auto
termination
  by (relation "measure (\<lambda>(net, opts, retries, i, tick). retries - i)") auto

declare makeRequest_loop.simps [simp del]

definition makeRequest ::
  "(nat \<Rightarrow> request \<Rightarrow> js_error + response) \<Rightarrow> nat \<Rightarrow> string \<Rightarrow> options \<Rightarrow> nat
   \<Rightarrow> (js_error + response option) \<times> nat \<times> event list" where
  "makeRequest net tick u opts retries =
     makeRequest_loop net
       \<lparr>http_method = opt_method opts, request_url = u,
        headers = merge_headers defaultHeaders (opt_headers opts)\<rparr>
       retries 0 tick"

definition default_retries :: nat where
  "default_retries = 3"

section \<open>The session authenticator\<close>

text \<open>
  What the headless browser meets for given credentials: whether each step of
  \<open>loginStudent\<close> resolves (a step that rejects throws inside the \<open>try\<close>), the anti-forgery
  token on the login page, the content of the detail page, and the error of
  \<open>browser.close()\<close> if it rejects.
\<close>

record browser_run =
  launched :: bool
  page_opened :: bool
  login_page_loaded :: bool
  csrf_token :: "string option"
  credentials_typed :: bool
  form_submitted :: bool
  navigation_settled :: bool
  details_loaded :: bool
  page_content :: "string option"
  close_error :: "js_error option"

definition loginStudent :: "browser_run \<Rightarrow> (js_error + string option) \<times> event list" where
  \<comment> \<open>The result is the HTML of studentDetailsView.htm, or \<open>null\<close> after a caught error;
     the \<open>finally\<close> block closes a launched browser, and its rejection is thrown on.\<close>
  "loginStudent run =
     (if \<not> launched run then (Inr None, [])
      else let content =
                 (if page_opened run \<and> login_page_loaded run \<and> csrf_token run \<noteq> None
                     \<and> credentials_typed run \<and> form_submitted run
                     \<and> navigation_settled run \<and> details_loaded run
                  then page_content run else None)
           in case close_error run of
                Some err \<Rightarrow> (Inl err, [BrowserLaunch, BrowserClose])
              | None \<Rightarrow> (Inr content, [BrowserLaunch, BrowserClose]))"

section \<open>The parsed documents\<close>

text \<open>
  \<open>cheerio.load\<close> and its selectors are a library: a document is modelled by what the
  selectors of the source return on it, the texts untrimmed and in document order. A
  table row is the list of the texts of the \<open>td\<close> elements that \<open>$(row).find('td')\<close>
  finds in it.

  \<open>cheerio.load(content)\<close> parses a string. Content that is no string is taken for DOM
  nodes: the library sets the properties \<open>prev\<close>, \<open>next\<close> and \<open>parent\<close> on it, which in
  its strict-mode code throws a TypeError on a number or a boolean, and reads a property
  of it first, which throws on \<open>null\<close>. What becomes of an object is left to an oracle: a
  document (whatever the selectors then find in it) or an error thrown on the way.
\<close>

type_synonym row = "string list"

definition cheerio_load ::
  "(string \<Rightarrow> 'p) \<Rightarrow> (string \<Rightarrow> js_error + 'p) \<Rightarrow> (js_value \<Rightarrow> js_error) \<Rightarrow> js_value
   \<Rightarrow> js_error + 'p" where
  \<comment> \<open>\<open>of_text\<close> parses markup, \<open>of_nodes\<close> adopts an object, \<open>thrown\<close> is the TypeError
     of the engine for a primitive.\<close>
  "cheerio_load of_text of_nodes thrown content =
     (case content of
        JStr s \<Rightarrow> Inr (of_text s)
      | JObject j \<Rightarrow> of_nodes j
      | _ \<Rightarrow> Inl (thrown content))"

record profile_page =
  profile_title :: string
  list_group_items :: "(string \<times> string) list"
  panel_title :: string
  branch_parent_text :: string
  branch_badge_text :: string
  semester_parent_text :: string
  semester_badge_text :: string
  cgpa_parent_text :: string
  cgpa_badge_text :: string
  sgpa_cells :: "string list"
  activity_rows :: "row list"
  curriculum_rows :: "row list"
  semester_panels :: "(string \<times> row list) list"

record exam_elem =
  exam_name_text :: string
  exam_date_text :: string
  sgpa_next_text :: string
  cgpa_next_text :: string
  exam_rows :: "row list"

record results_page =
  name_by_class :: string
  name_by_span :: string
  name_by_cell :: string
  exam_elems :: "exam_elem list"

record announcement_elem =
  heading_text :: string
  date_text :: string
  paragraph_text :: string
  anchors :: "(string option \<times> string) list"

section \<open>The profile extraction\<close>

definition REGNO_RE :: "string \<Rightarrow> bool" where
  \<comment> \<open>\<open>/^[A-Z]{3}\d{2}[A-Z]{2}\d{3}$/i.test(s)\<close>\<close>
  "REGNO_RE s =
     (length s = 10
      \<and> list_all (\<lambda>c. is_upper c \<or> is_lower c) (take 3 s)
      \<and> list_all is_digit (take 2 (drop 3 s))
      \<and> list_all (\<lambda>c. is_upper c \<or> is_lower c) (take 2 (drop 5 s))
      \<and> list_all is_digit (drop 7 s))"

definition extract_personalInfo :: "profile_page \<Rightarrow> personal_info" where
  "extract_personalInfo page =
     (let nameAndAdmissionText = trim (profile_title page);
          username = trim (substring nameAndAdmissionText 0 (indexOf nameAndAdmissionText ''(''));
          admission = trim (substring nameAndAdmissionText
                             (indexOf nameAndAdmissionText ''('' + 1)
                             (indexOf nameAndAdmissionText '')''));
          (gender_text, dob_text) =
             foldl (\<lambda>(g, d) (badge, direct).
                      let badgeText = trim badge;
                          g' = (if badgeText = ''Gender'' then trim direct else g);
                          d' = (if badgeText = ''Date of Birth'' then trim direct else d)
                      in (g', d'))
                   ([], []) (list_group_items page);
          panelTitle = trim (panel_title page);
          college_text = substring panelTitle (lastIndexOf panelTitle ''('' + 1)
                           (lastIndexOf panelTitle '')'');
          branch_text = trim (replace_first (branch_parent_text page) (branch_badge_text page) []);
          semester_text =
             trim (replace_first (semester_parent_text page) (semester_badge_text page) [])
      in \<lparr>name = username, admissionNo = admission, gender = gender_text, dob = dob_text,
          branch = branch_text, semester = semester_text, batch = [],
          college = college_text\<rparr>)"

definition derive_percentage :: "string \<Rightarrow> string" where
  \<comment> \<open>Lines 206 and 207: the percentage, from the \<open>cgpa\<close> field.\<close>
  "derive_percentage cgpa_field =
     (let cgpaNum = parseFloat cgpa_field
      in if \<not> isNaN cgpaNum
         then toFixed (js_sub (js_mul cgpaNum (Fin 10)) (Fin (5 / 2))) 2 @ ''%''
         else [])"

definition extract_academicInfo :: "profile_page \<Rightarrow> academic_info" where
  "extract_academicInfo page =
     (let cgpa_text =
            trim (replace_first (replace_first (cgpa_parent_text page) (cgpa_badge_text page) [])
                    '':'' []);
          sgpaAll = map trim (sgpa_cells page);
          sgpaText = (case find (\<lambda>s. \<not> isNaN (parseFloat s)) (rev sgpaAll) of
                        None \<Rightarrow> []
                      | Some s \<Rightarrow> s)
      in \<lparr>cgpa = cgpa_text, sgpa = sgpaText, percentage = derive_percentage cgpa_text\<rparr>)"

definition activity_step :: "breakdown_item list \<Rightarrow> row \<Rightarrow> breakdown_item list" where
  \<comment> \<open>The body of \<open>activityRows.each\<close>, lines 218 to 225.\<close>
  "activity_step acc cells =
     (if 2 \<le> length cells then
        (let key = trim (cells ! 0); val = trim (cells ! 1)
         in if key \<noteq> [] \<and> val \<noteq> [] \<and> \<not> includes_ci ''TOTAL'' key
            then acc @ [\<lparr>category = key, points = or_else (parseInt val) (Fin 0)\<rparr>]
            else acc)
      else acc)"

definition sum_points :: "breakdown_item list \<Rightarrow> number" where
  \<comment> \<open>\<open>breakdown.reduce((s, b) => s + (b.points || 0), 0)\<close>\<close>
  "sum_points bs = foldl (\<lambda>s b. js_add s (or_else (points b) (Fin 0))) (Fin 0) bs"

definition total_points_of :: "row list \<Rightarrow> breakdown_item list \<Rightarrow> number" where
  \<comment> \<open>Lines 227 and 228: the last cell of the last row, or the sum of the breakdown.\<close>
  "total_points_of rows bs =
     (let totalPointsText = trim (last_text (if rows = [] then [] else last rows))
      in or_else (parseInt totalPointsText) (sum_points bs))"

definition extract_activityPoints :: "row list \<Rightarrow> activity_points" where
  "extract_activityPoints rows =
     (let bs = foldl activity_step [] rows;
          totalPoints = total_points_of rows bs
      in \<lparr>points_total = toString totalPoints, required = ''100'',
          status = (if js_ge totalPoints (Fin 100) then ''Completed'' else ''Pending''),
          breakdown = bs\<rparr>)"

definition extract_credits :: "row list \<Rightarrow> credit_summary" where
  "extract_credits rows =
     (let earnedCredits =
            foldl (\<lambda>acc cells.
                     let credit = parseFloat (trim (nth_text cells 8))
                     in if \<not> isNaN credit then js_add acc credit else acc)
                  (Fin 0) rows
      in \<lparr>earned = toString earnedCredits, credits_required = ''162'',
          courseCredits = ''160'', activityCredits = ''2''\<rparr>)"

fun match_course_code :: "string \<Rightarrow> string option" where
  \<comment> \<open>\<open>courseText.match(/[A-Z]{3}\d{3}/)\<close>: the leftmost run of three upper-case letters
     and three digits.\<close>
  "match_course_code [] = None"
| "match_course_code (c # cs) =
     (if 6 \<le> length (c # cs) \<and> list_all is_upper (take 3 (c # cs))
         \<and> list_all is_digit (take 3 (drop 3 (c # cs)))
      then Some (take 6 (c # cs))
      else match_course_code cs)"

function replace_nbsp_hyphen :: "string \<Rightarrow> string" where
  \<comment> \<open>\<open>.replace(/&nbsp;|-/g, ' ')\<close>\<close>
  "replace_nbsp_hyphen s =
     (if s = [] then []
      else if prefix ''&nbsp;'' s then CHR '' '' # replace_nbsp_hyphen (drop 6 s)
      else if hd s = CHR ''-'' then CHR '' '' # replace_nbsp_hyphen (tl s)
      else hd s # replace_nbsp_hyphen (tl s))"
  by pat_completeness auto
termination
  by (relation "measure length") (auto simp: prefix_def)

declare replace_nbsp_hyphen.simps [simp del]

definition semester_row_step :: "subject list \<Rightarrow> row \<Rightarrow> subject list" where
  \<comment> \<open>The body of the inner \<open>each\<close>, lines 255 to 272.\<close>
  "semester_row_step acc cells =
     (if 9 \<le> length cells then
        (let courseText = trim (cells ! 1);
             c = (case match_course_code courseText of None \<Rightarrow> [] | Some m \<Rightarrow> m);
             n = (if c \<noteq> []
                  then trim (replace_nbsp_hyphen
                               (substring_from courseText (indexOf courseText c + int (length c))))
                  else courseText)
         in if c \<noteq> [] \<and> n \<noteq> []
            then acc @ [\<lparr>code = c, subject_name = n, subject_credits = trim (cells ! 2),
                         grade = trim (cells ! 7), gradePoint = []\<rparr>]
            else acc)
      else acc)"

definition semester_panel_step ::
  "semester_result list \<Rightarrow> (string \<times> row list) \<Rightarrow> semester_result list" where
  "semester_panel_step acc panel =
     (let semesterName = trim (fst panel);
          subs = foldl semester_row_step [] (snd panel)
      in if 0 < length subs
         then acc @ [\<lparr>semester_label = semesterName, subjects = subs\<rparr>]
         else acc)"

definition extract_profile :: "profile_page \<Rightarrow> string \<Rightarrow> profile" where
  \<comment> \<open>Lines 148 to 277: the record built from the parsed page.\<close>
  "extract_profile page regNo =
     \<lparr>registerNo = toUpperCase regNo,
      personalInfo = extract_personalInfo page,
      academicInfo = extract_academicInfo page,
      attendance = \<lparr>overall = [], attendance_subjects = [], lastUpdated = None\<rparr>,
      activityPoints = extract_activityPoints (activity_rows page),
      credits = extract_credits (curriculum_rows page),
      semesterResults = foldl semester_panel_step [] (semester_panels page)\<rparr>"

section \<open>The handlers\<close>

text \<open>
  What a handler run meets outside the process: the browser for given credentials, the
  network, \<open>cheerio.load\<close> with the selectors of each page (on markup, and on an object
  taken for DOM nodes), the TypeError of the engine, \<open>Date.now()\<close> when the cache is read
  and when it is written, and \<open>new Date().toISOString()\<close>. A handler takes the cache and
  returns its reply, the cache and its effects; what is thrown inside its \<open>try\<close> block is
  answered by its \<open>catch\<close> block with status 500. The fields of the request and the
  query parameter are strings: a missing field is the empty string, a missing query
  parameter is \<open>None\<close>.
\<close>

record env =
  browser :: "string \<Rightarrow> string \<Rightarrow> browser_run"
  net :: "nat \<Rightarrow> request \<Rightarrow> js_error + response"
  load_profile :: "string \<Rightarrow> profile_page"
  load_results :: "string \<Rightarrow> results_page"
  load_attendance :: "string \<Rightarrow> row list"
  load_announcements :: "string \<Rightarrow> announcement_elem list"
  nodes_results :: "string \<Rightarrow> js_error + results_page"
  nodes_attendance :: "string \<Rightarrow> js_error + row list"
  nodes_announcements :: "string \<Rightarrow> js_error + announcement_elem list"
  type_error :: "js_value \<Rightarrow> js_error"
  clock_get :: nat
  clock_set :: nat
  iso_now :: string

definition error_reply :: "nat \<Rightarrow> (string \<times> string) list \<Rightarrow> reply" where
  "error_reply n kvs = Reply n (Error_body kvs)"

definition profile_key :: "string \<Rightarrow> string" where
  "profile_key regNo = ''profile_'' @ toUpperCase regNo"

definition profile_route :: "env \<Rightarrow> cache \<Rightarrow> string \<Rightarrow> string \<Rightarrow> reply \<times> cache \<times> event list" where
  \<comment> \<open>\<open>app.post('/api/profile')\<close>, lines 127 to 285.\<close>
  "profile_route e c regNo password =
     (if regNo = [] \<or> password = []
      then (error_reply 400 [(''error'', ''Register number and password are required'')], c, [])
      else if \<not> REGNO_RE regNo
      then (error_reply 400 [(''error'', ''Invalid register number format'')], c, [])
      else let cacheKey = profile_key regNo
           in case cache_get c (clock_get e) cacheKey of
                Some cached \<Rightarrow> (Reply 200 (Record_body cached True), c, [CacheGet cacheKey])
              | None \<Rightarrow>
                  (case loginStudent (browser e regNo password) of
                     (Inl err, tr) \<Rightarrow>
                       (error_reply 500 [(''error'', ''Failed to fetch student profile''),
                                         (''message'', error_text err)],
                        c, CacheGet cacheKey # Login regNo password # tr)
                   | (Inr pageContent, tr) \<Rightarrow>
                       (case pageContent of
                          None \<Rightarrow>
                            (error_reply 401 [(''error'', ''Invalid credentials or login failed'')],
                             c, CacheGet cacheKey # Login regNo password # tr)
                        | Some html \<Rightarrow>
                            if html = []
                            then (error_reply 401
                                    [(''error'', ''Invalid credentials or login failed'')],
                                  c, CacheGet cacheKey # Login regNo password # tr)
                            else let p = extract_profile (load_profile e html) regNo
                                 in (Reply 200 (Record_body (VProfile p) False),
                                     cache_set c (clock_set e) cacheKey (VProfile p),
                                     CacheGet cacheKey # Login regNo password # tr
                                       @ [CacheSet cacheKey]))))"

definition or_text :: "string \<Rightarrow> string \<Rightarrow> string" where
  \<comment> \<open>\<open>a || b\<close> on strings: the empty string is falsy.\<close>
  "or_text a b = (if a \<noteq> [] then a else b)"

definition exam_row_step :: "subject list \<Rightarrow> row \<Rightarrow> subject list" where
  \<comment> \<open>The body of the inner \<open>each\<close>, lines 337 to 341.\<close>
  "exam_row_step acc cells =
     (if 3 \<le> length cells then
        (let sub = \<lparr>code = trim (nth_text cells 0), subject_name = trim (nth_text cells 1),
                    subject_credits = or_text (trim (nth_text cells 2)) [],
                    grade = or_text (trim (nth_text cells 3)) [],
                    gradePoint = or_text (trim (nth_text cells 4)) []\<rparr>
         in if code sub \<noteq> [] \<and> subject_name sub \<noteq> [] then acc @ [sub] else acc)
      else acc)"

definition exam_step :: "exam list \<Rightarrow> exam_elem \<Rightarrow> exam list" where
  \<comment> \<open>The body of the outer \<open>each\<close>, lines 328 to 344.\<close>
  "exam_step acc elem =
     (let ex = \<lparr>examName = trim (exam_name_text elem), examDate = trim (exam_date_text elem),
                exam_sgpa = or_text (trim (sgpa_next_text elem)) ''N/A'',
                exam_cgpa = or_text (trim (cgpa_next_text elem)) ''N/A'',
                exam_subjects = foldl exam_row_step [] (exam_rows elem)\<rparr>
      in if examName ex \<noteq> [] \<and> length (exam_subjects ex) \<noteq> 0 then acc @ [ex] else acc)"

definition extract_results :: "results_page \<Rightarrow> string \<Rightarrow> string \<Rightarrow> results_record" where
  \<comment> \<open>Lines 323 to 345.\<close>
  "extract_results page regNo successUrl =
     \<lparr>results_registerNo = toUpperCase regNo,
      studentName = or_text (trim (name_by_class page))
                      (or_text (trim (name_by_span page))
                         (or_text (trim (name_by_cell page)) ''Name not available'')),
      results = foldl exam_step [] (exam_elems page),
      fetchedFrom = successUrl\<rparr>"

definition resultsUrls :: "string \<Rightarrow> string list" where
  "resultsUrls regNo =
     [''https://app.ktu.edu.in/public/results?registerNo='' @ regNo,
      ''https://results.ktu.edu.in/results?registerNo='' @ regNo,
      ''https://app.ktu.edu.in/public/studentresults/'' @ regNo]"

definition exam_or_all :: "string option \<Rightarrow> string" where
  \<comment> \<open>\<open>examId || 'all'\<close>\<close>
  "exam_or_all examId = (case examId of None \<Rightarrow> ''all'' | Some x \<Rightarrow> or_text x ''all'')"

definition with_examId :: "string \<Rightarrow> string option \<Rightarrow> string" where
  \<comment> \<open>\<open>examId ? `${url}&examId=${examId}` : url\<close>\<close>
  "with_examId u examId =
     (case examId of
        None \<Rightarrow> u
      | Some x \<Rightarrow> if x \<noteq> [] then u @ ''&examId='' @ x else u)"

definition results_key :: "string \<Rightarrow> string option \<Rightarrow> string" where
  "results_key regNo examId = ''results_'' @ toUpperCase regNo @ ''_'' @ exam_or_all examId"

definition get_options :: options where
  "get_options = \<lparr>opt_method = ''GET'', opt_headers = []\<rparr>"

definition usable :: "response option \<Rightarrow> bool" where
  \<comment> \<open>\<open>response && response.status === 200 && response.data\<close>\<close>
  "usable r =
     (case r of None \<Rightarrow> False | Some x \<Rightarrow> http_status x = 200 \<and> truthy_value (data x))"

fun try_urls ::
  "(nat \<Rightarrow> request \<Rightarrow> js_error + response) \<Rightarrow> string option \<Rightarrow> string list \<Rightarrow> nat
   \<Rightarrow> response option \<Rightarrow> response option \<times> string option \<times> nat \<times> event list" where
  \<comment> \<open>The loop of lines 308 to 318 from the URLs still to try: the variables
     \<open>response\<close> and \<open>successUrl\<close> after it, the attempt counter and the effects.\<close>
  "try_urls nt examId [] tick resp = (resp, None, tick, [])"
| "try_urls nt examId (u # us) tick resp =
     (case makeRequest nt tick (with_examId u examId) get_options default_retries of
        (Inl err, tick', tr) \<Rightarrow>
          (case try_urls nt examId us tick' resp of
             (r, su, t, tr') \<Rightarrow> (r, su, t, tr @ tr'))
      | (Inr r, tick', tr) \<Rightarrow>
          if usable r then (r, Some u, tick', tr)
          else (case try_urls nt examId us tick' r of
                  (r', su, t, tr') \<Rightarrow> (r', su, t, tr @ tr')))"

definition results_route ::
  "env \<Rightarrow> cache \<Rightarrow> string \<Rightarrow> string option \<Rightarrow> reply \<times> cache \<times> event list" where
  \<comment> \<open>\<open>app.get('/api/results/:registerNo')\<close>, lines 288 to 355.\<close>
  "results_route e c regNo examId =
     (if regNo = [] \<or> \<not> REGNO_RE regNo
      then (error_reply 400 [(''error'', ''Invalid register number format''),
                             (''expected'', ''Format: ABC20CS001'')], c, [])
      else let cacheKey = results_key regNo examId
           in case cache_get c (clock_get e) cacheKey of
                Some cached \<Rightarrow> (Reply 200 (Record_body cached True), c, [CacheGet cacheKey])
              | None \<Rightarrow>
                  (case try_urls (net e) examId (resultsUrls regNo) 0 None of
                     (resp, successUrl, tick, tr) \<Rightarrow>
                       (case (resp, successUrl) of
                          (Some r, Some su) \<Rightarrow>
                            (case cheerio_load (load_results e) (nodes_results e) (type_error e)
                                    (or_empty (data r)) of
                               Inl err \<Rightarrow>
                                 (error_reply 500 [(''error'', ''Failed to fetch results''),
                                                   (''message'', error_text err)],
                                  c, CacheGet cacheKey # tr)
                             | Inr page \<Rightarrow>
                                 (let res = extract_results page regNo su
                                  in if length (results res) = 0
                                     then (error_reply 404
                                             [(''error'', ''No results found''),
                                              (''registerNo'', toUpperCase regNo),
                                              (''studentName'', studentName res)],
                                           c, CacheGet cacheKey # tr)
                                     else (Reply 200 (Record_body (VResults res) False),
                                           cache_set c (clock_set e) cacheKey (VResults res),
                                           CacheGet cacheKey # tr @ [CacheSet cacheKey])))
                        | _ \<Rightarrow>
                            (error_reply 404
                               [(''error'', ''Could not fetch results from KTU portal''),
                                (''registerNo'', toUpperCase regNo)],
                             c, CacheGet cacheKey # tr))))"

definition ratio_text :: "number \<Rightarrow> number \<Rightarrow> string" where
  \<comment> \<open>\<open>total ? ((attended / total) * 100).toFixed(2) + '%' : '0%'\<close>, lines 379 and 385.\<close>
  "ratio_text a t =
     (if truthy t then toFixed (js_mul (js_div a t) (Fin 100)) 2 @ ''%'' else ''0%'')"

definition attendance_step ::
  "attendance_subject list \<Rightarrow> (nat \<times> row) \<Rightarrow> attendance_subject list" where
  \<comment> \<open>The body of \<open>$('table tr').each((i, row) => ...)\<close>, lines 374 to 381.\<close>
  "attendance_step acc ir =
     (case ir of
        (i, cells) \<Rightarrow>
          if 4 \<le> length cells \<and> 0 < i then
            (let a = or_else (parseInt (trim (cells ! 1))) (Fin 0);
                 t = or_else (parseInt (trim (cells ! 2))) (Fin 0)
             in acc @ [\<lparr>subject_title = trim (cells ! 0), attended = a, attended_total = t,
                         subject_percentage = or_text (trim (cells ! 3)) (ratio_text a t)\<rparr>])
          else acc)"

definition extract_attendance :: "row list \<Rightarrow> string \<Rightarrow> attendance_record" where
  \<comment> \<open>Lines 371 to 385.\<close>
  "extract_attendance rows stamp =
     (let subs = foldl attendance_step [] (enumerate 0 rows);
          totals = foldl (\<lambda>(a, t) s. (js_add a (attended s), js_add t (attended_total s)))
                     (Fin 0, Fin 0) subs
      in \<lparr>overall = ratio_text (fst totals) (snd totals), attendance_subjects = subs,
          lastUpdated = Some stamp\<rparr>)"

definition attendance_route ::
  "env \<Rightarrow> cache \<Rightarrow> string \<Rightarrow> string \<Rightarrow> reply \<times> cache \<times> event list" where
  \<comment> \<open>\<open>app.post('/api/attendance')\<close>, lines 358 to 392. The handler never names the
     cache: it is returned as it came.\<close>
  "attendance_route e c regNo password =
     (if regNo = [] \<or> password = []
      then (error_reply 400 [(''error'', ''Register number and password required'')], c, [])
      else if \<not> REGNO_RE regNo
      then (error_reply 400 [(''error'', ''Invalid register number format'')], c, [])
      else case loginStudent (browser e regNo password) of
             (Inl err, tr) \<Rightarrow>
               (error_reply 500 [(''error'', ''Failed to fetch attendance''),
                                 (''message'', error_text err)],
                c, Login regNo password # tr)
           | (Inr sessionCookie, tr) \<Rightarrow>
               (case sessionCookie of
                  None \<Rightarrow> (error_reply 401 [(''error'', ''Invalid credentials'')], c,
                            Login regNo password # tr)
                | Some cookie \<Rightarrow>
                    if cookie = []
                    then (error_reply 401 [(''error'', ''Invalid credentials'')], c,
                          Login regNo password # tr)
                    else (case makeRequest (net e) 0 ''https://app.ktu.edu.in/attendance.htm''
                                 \<lparr>opt_method = ''GET'', opt_headers = [(''Cookie'', cookie)]\<rparr>
                                 default_retries of
                            (Inl err, tick, tr') \<Rightarrow>
                              (error_reply 500 [(''error'', ''Failed to fetch attendance''),
                                                (''message'', error_text err)],
                               c, Login regNo password # tr @ tr')
                          | (Inr resp, tick, tr') \<Rightarrow>
                              (case resp of
                                 None \<Rightarrow>
                                   (error_reply 502
                                      [(''error'', ''Empty response from KTU attendance'')],
                                    c, Login regNo password # tr @ tr')
                               | Some r \<Rightarrow>
                                   if \<not> truthy_value (data r)
                                   then (error_reply 502
                                           [(''error'', ''Empty response from KTU attendance'')],
                                         c, Login regNo password # tr @ tr')
                                   else (case cheerio_load (load_attendance e)
                                                (nodes_attendance e) (type_error e)
                                                (or_empty (data r)) of
                                           Inl err \<Rightarrow>
                                             (error_reply 500
                                                [(''error'', ''Failed to fetch attendance''),
                                                 (''message'', error_text err)],
                                              c, Login regNo password # tr @ tr')
                                         | Inr rows \<Rightarrow>
                                             (Reply 200
                                                (Record_body
                                                   (VAttendance
                                                      (extract_attendance rows (iso_now e)))
                                                   False),
                                              c, Login regNo password # tr @ tr'))))))"

definition toLowerCase :: "string \<Rightarrow> string" where
  \<comment> \<open>On code units below 256: the letters \<open>A-Z\<close> and the Latin-1 capitals.\<close>
  "toLowerCase s =
     map (\<lambda>c. let n = (of_char c :: nat)
               in if (65 \<le> n \<and> n \<le> 90) \<or> (192 \<le> n \<and> n \<le> 222 \<and> n \<noteq> 215)
                  then char_of (n + 32) else c) s"

fun string_includes :: "string \<Rightarrow> string \<Rightarrow> bool" where
  \<comment> \<open>\<open>s.includes(pat)\<close>\<close>
  "string_includes [] pat = (pat = [])"
| "string_includes (c # cs) pat = (prefix pat (c # cs) \<or> string_includes cs pat)"

definition link_step :: "link list \<Rightarrow> (string option \<times> string) \<Rightarrow> link list" where
  \<comment> \<open>The body of the inner \<open>each\<close>, lines 412 to 416.\<close>
  "link_step acc a =
     (case a of
        (href, raw) \<Rightarrow>
          (let linkText = trim raw
           in case href of
                None \<Rightarrow> acc
              | Some h \<Rightarrow>
                  if h \<noteq> [] \<and> linkText \<noteq> [] \<and> \<not> string_includes (toLowerCase linkText) ''read more''
                  then acc @ [\<lparr>link_title = linkText,
                               url = (if prefix ''http'' h then h else ''https://ktu.edu.in'' @ h)\<rparr>]
                  else acc))"

definition announcement_step :: "announcement list \<Rightarrow> announcement_elem \<Rightarrow> announcement list" where
  \<comment> \<open>The body of the outer \<open>each\<close>, lines 407 to 418.\<close>
  "announcement_step acc elem =
     (let t = trim (heading_text elem)
      in if t \<noteq> []
         then acc @ [\<lparr>title = t, date = trim (date_text elem),
                      description = trim (paragraph_text elem),
                      links = foldl link_step [] (anchors elem)\<rparr>]
         else acc)"

definition extract_announcements :: "announcement_elem list \<Rightarrow> string \<Rightarrow> announcements_record" where
  \<comment> \<open>Lines 405 to 421.\<close>
  "extract_announcements elems stamp =
     (let found = foldl announcement_step [] elems
      in \<lparr>announcements = take 20 found, count = length found,
          announcements_lastUpdated = stamp\<rparr>)"

definition announcements_route :: "env \<Rightarrow> cache \<Rightarrow> reply \<times> cache \<times> event list" where
  \<comment> \<open>\<open>app.get('/api/announcements')\<close>, lines 395 to 428.\<close>
  "announcements_route e c =
     (let cacheKey = ''announcements''
      in case cache_get c (clock_get e) cacheKey of
           Some cached \<Rightarrow> (Reply 200 (Record_body cached True), c, [CacheGet cacheKey])
         | None \<Rightarrow>
             (case makeRequest (net e) 0 ''https://ktu.edu.in/eu/core/announcements.htm''
                     get_options default_retries of
                (Inl err, tick, tr) \<Rightarrow>
                  (error_reply 500 [(''error'', ''Failed to fetch announcements''),
                                    (''message'', error_text err)],
                   c, CacheGet cacheKey # tr)
              | (Inr resp, tick, tr) \<Rightarrow>
                  (case resp of
                     None \<Rightarrow>
                       (error_reply 502 [(''error'', ''Empty response from KTU announcements'')],
                        c, CacheGet cacheKey # tr)
                   | Some r \<Rightarrow>
                       if \<not> truthy_value (data r)
                       then (error_reply 502
                               [(''error'', ''Empty response from KTU announcements'')],
                             c, CacheGet cacheKey # tr)
                       else (case cheerio_load (load_announcements e) (nodes_announcements e)
                                    (type_error e) (or_empty (data r)) of
                               Inl err \<Rightarrow>
                                 (error_reply 500 [(''error'', ''Failed to fetch announcements''),
                                                   (''message'', error_text err)],
                                  c, CacheGet cacheKey # tr)
                             | Inr elems \<Rightarrow>
                                 (let res = extract_announcements elems (iso_now e)
                                  in (Reply 200 (Record_body (VAnnouncements res) False),
                                      cache_set c (clock_set e) cacheKey (VAnnouncements res),
                                      CacheGet cacheKey # tr @ [CacheSet cacheKey]))))))"

section \<open>Effects, cache invariant and the statements of the specification\<close>

text \<open>Counting the effects of a run.\<close>

fun attempts :: "event list \<Rightarrow> nat" where
  "attempts [] = 0"
| "attempts (HttpAttempt r # tr) = Suc (attempts tr)"
| "attempts (ev # tr) = attempts tr"

fun backoffs :: "event list \<Rightarrow> nat list" where
  "backoffs [] = []"
| "backoffs (Backoff d # tr) = d # backoffs tr"
| "backoffs (ev # tr) = backoffs tr"

fun is_cache_event :: "event \<Rightarrow> bool" where
  "is_cache_event (CacheGet k) = True"
| "is_cache_event (CacheSet k) = True"
| "is_cache_event ev = False"

definition request_of :: "string \<Rightarrow> options \<Rightarrow> request" where
  \<comment> \<open>The request that \<open>makeRequest\<close> builds from its arguments, lines 49 to 51.\<close>
  "request_of u opts =
     \<lparr>http_method = opt_method opts, request_url = u,
      headers = merge_headers defaultHeaders (opt_headers opts)\<rparr>"

text \<open>
  The read-through pattern of a handler run on the key \<open>k\<close>, by its four ways out: the
  request is refused before anything happens; the cache answers and nothing is fetched;
  the cache is read, something is fetched, the run fails and the cache is as it was; the
  cache is read, something is fetched, and the last effect stores the record that the
  reply carries.
\<close>

definition read_through ::
  "string \<Rightarrow> cache \<Rightarrow> nat \<Rightarrow> reply \<times> cache \<times> event list \<Rightarrow> bool" where
  "read_through k c now out =
     (case out of
        (rep, c', tr) \<Rightarrow>
          (tr = [] \<and> c' = c \<and> status_code rep = 400)
          \<or> (tr = [CacheGet k] \<and> c' = c \<and> (\<exists>v. rep = Reply 200 (Record_body v True)))
          \<or> (\<exists>rest. tr = CacheGet k # rest \<and> rest \<noteq> []
                \<and> list_all (\<lambda>ev. \<not> is_cache_event ev) rest
                \<and> c' = c \<and> status_code rep \<noteq> 200)
          \<or> (\<exists>rest v. tr = CacheGet k # rest @ [CacheSet k] \<and> rest \<noteq> []
                \<and> list_all (\<lambda>ev. \<not> is_cache_event ev) rest
                \<and> rep = Reply 200 (Record_body v False) \<and> c' = cache_set c now k v))"

text \<open>
  The caches the server can hold: the empty one at start, and what a handler run leaves.
  In each of them an entry sits under the key of its own record.
\<close>

inductive reachable :: "cache \<Rightarrow> bool" where
  start: "reachable Map.empty"
| profile: "reachable c \<Longrightarrow> reachable (fst (snd (profile_route e c regNo password)))"
| results: "reachable c \<Longrightarrow> reachable (fst (snd (results_route e c regNo examId)))"
| attendance: "reachable c \<Longrightarrow> reachable (fst (snd (attendance_route e c regNo password)))"
| announcements: "reachable c \<Longrightarrow> reachable (fst (snd (announcements_route e c)))"

definition results_ok :: "results_record \<Rightarrow> bool" where
  "results_ok r = (results r \<noteq> [] \<and> (\<forall>x \<in> set (results r). exam_subjects x \<noteq> []))"

definition entry_ok :: "string \<Rightarrow> record_value \<Rightarrow> bool" where
  "entry_ok k v =
     (case v of
        VProfile p \<Rightarrow> k = ''profile_'' @ registerNo p
      | VResults r \<Rightarrow>
          prefix (''results_'' @ results_registerNo r @ ''_'') k
          \<and> length (results_registerNo r) = 10 \<and> results_ok r
      | VAnnouncements a \<Rightarrow> k = ''announcements''
      | VAttendance a \<Rightarrow> False)"

definition cache_ok :: "cache \<Rightarrow> bool" where
  "cache_ok c = (\<forall>k v t. c k = Some (v, t) \<longrightarrow> entry_ok k v)"

text \<open>The extraction rules in the words of the specification.\<close>

definition counts_as_category :: "row \<Rightarrow> bool" where
  \<comment> \<open>A row of at least two cells, the first two not empty, the first holding no
     \<open>total\<close> in any letter case.\<close>
  "counts_as_category cells =
     (2 \<le> length cells \<and> trim (cells ! 0) \<noteq> [] \<and> trim (cells ! 1) \<noteq> []
      \<and> \<not> includes_ci ''TOTAL'' (trim (cells ! 0)))"

definition int_or_zero :: "string \<Rightarrow> number" where
  \<comment> \<open>A cell parsed as an integer, 0 when it does not parse.\<close>
  "int_or_zero s = (if parseInt (trim s) = NaN then Fin 0 else parseInt (trim s))"

definition two_decimals :: "rat \<Rightarrow> string" where
  \<comment> \<open>The decimal notation of a rational rounded to hundredths, a half rounded away
     from zero: sign, integer digits, a point and exactly two digits.\<close>
  "two_decimals q =
     (let n = nat \<lfloor>\<bar>q\<bar> * 100 + 1 / 2\<rfloor>
      in (if q < 0 then ''-'' else []) @ digits10 (n div 100) @ ''.''
           @ [''0123456789'' ! (n div 10 mod 10), ''0123456789'' ! (n mod 10)])"

definition percent_text :: "number \<Rightarrow> string" where
  \<comment> \<open>A number as a percentage: to two decimals when it is finite and below \<open>10\<^bsup>21\<^esup>\<close> in
     magnitude, and else the way \<open>Number::toString\<close> prints it (exponent notation,
     \<open>Infinity\<close>, \<open>NaN\<close>), with \<open>%\<close> after it.\<close>
  "percent_text r =
     (case r of
        Fin x \<Rightarrow> if \<bar>x\<bar> < 10 ^ 21 then two_decimals x else toString r
      | _ \<Rightarrow> toString r) @ ''%''"

definition percentage_of_cgpa :: "string \<Rightarrow> string" where
  \<comment> \<open>Empty when the text does not parse as a number, else \<open>c * 10 - 2.5\<close> as a
     percentage.\<close>
  "percentage_of_cgpa s =
     (if parseFloat s = NaN then []
      else percent_text (js_sub (js_mul (parseFloat s) (Fin 10)) (Fin (5 / 2))))"

definition percent_of :: "number \<Rightarrow> number \<Rightarrow> string" where
  \<comment> \<open>\<open>0%\<close> for a total that is zero or not a number, else \<open>attended / total * 100\<close> as a
     percentage.\<close>
  "percent_of a t =
     (if t = Fin 0 \<or> t = NaN then ''0%''
      else percent_text (js_mul (js_div a t) (Fin 100)))"

definition subject_of_row :: "row \<Rightarrow> attendance_subject" where
  "subject_of_row cells =
     \<lparr>subject_title = trim (cells ! 0), attended = int_or_zero (cells ! 1),
      attended_total = int_or_zero (cells ! 2),
      subject_percentage =
        (if trim (cells ! 3) \<noteq> [] then trim (cells ! 3)
         else percent_of (int_or_zero (cells ! 1)) (int_or_zero (cells ! 2)))\<rparr>"

section \<open>A sample world\<close>

text \<open>Concrete inputs, at which the properties below are evaluated.\<close>

definition sample_run :: browser_run where
  "sample_run =
     \<lparr>launched = True, page_opened = True, login_page_loaded = True,
      csrf_token = Some ''tok'', credentials_typed = True, form_submitted = True,
      navigation_settled = True, details_loaded = True,
      page_content = Some ''<html>details</html>'', close_error = None\<rparr>"

definition sample_page :: profile_page where
  "sample_page =
     \<lparr>profile_title = '' John Doe '', list_group_items = [(''Gender'', '' Male '')],
      panel_title = ''Student (ABC College)'',
      branch_parent_text = ''Admitted Branch CSE'', branch_badge_text = ''Admitted Branch'',
      semester_parent_text = ''Current Semester S6'',
      semester_badge_text = ''Current Semester'',
      cgpa_parent_text = ''CGPA : 8.50'', cgpa_badge_text = ''CGPA'',
      sgpa_cells = [''8.1'', ''SGPA''],
      activity_rows = [[''NSS'', ''60''], [''Tech'', ''35''], [''Total'', ''n/a'']],
      curriculum_rows = [], semester_panels = []\<rparr>"

definition sample_results_page :: results_page where
  "sample_results_page =
     \<lparr>name_by_class = ''John Doe'', name_by_span = [], name_by_cell = [],
      exam_elems =
        [\<lparr>exam_name_text = ''S1 Exam'', exam_date_text = ''2021'', sgpa_next_text = ''8.1'',
          cgpa_next_text = [], exam_rows = [[''CS101'', ''Programming'', ''4'', ''A'']]\<rparr>]\<rparr>"

definition sample_attendance_rows :: "row list" where
  "sample_attendance_rows = [[], [''DS'', ''34'', ''40'', []], [''OS'', ''30'', ''35'', []]]"

definition sample_response :: response where
  "sample_response = \<lparr>http_status = 200, data = JStr ''<html>page</html>''\<rparr>"

definition sample_env :: env where
  "sample_env =
     \<lparr>browser = (\<lambda>r p. sample_run),
      net = (\<lambda>n req. Inr sample_response),
      load_profile = (\<lambda>h. sample_page),
      load_results = (\<lambda>h. sample_results_page),
      load_attendance = (\<lambda>h. sample_attendance_rows),
      load_announcements = (\<lambda>h. []),
      nodes_results = (\<lambda>j. Inr sample_results_page),
      nodes_attendance = (\<lambda>j. Inr sample_attendance_rows),
      nodes_announcements = (\<lambda>j. Inr []),
      type_error = (\<lambda>v. Js_error ''TypeError'' ''Cannot create property on a primitive'' None),
      clock_get = 1000, clock_set = 2000, iso_now = ''2025-11-02T00:00:00.000Z''\<rparr>"


definition timeout_error :: js_error where
  "timeout_error = Js_error ''AxiosError'' ''timeout of 15000ms exceeded'' None"

definition unavailable_error :: js_error where
  "unavailable_error = Js_error ''AxiosError'' ''Request failed with status code 503'' (Some 503)"

definition flaky_net :: "nat \<Rightarrow> request \<Rightarrow> js_error + response" where
  \<comment> \<open>Failure, failure, then success.\<close>
  "flaky_net n req = (if n < 2 then Inl timeout_error else Inr sample_response)"

definition down_net :: "nat \<Rightarrow> request \<Rightarrow> js_error + response" where
  "down_net n req = Inl unavailable_error"

definition offline_env :: env where
  \<comment> \<open>The browser does not launch and every request fails.\<close>
  "offline_env = sample_env\<lparr>browser := (\<lambda>r p. sample_run\<lparr>launched := False\<rparr>), net := down_net\<rparr>"

section \<open>Evaluation of the built-ins\<close>

text \<open>Rewrite rules that evaluate the built-ins on literals.\<close>

lemma floorlog_eval:
  "0 < a \<Longrightarrow> 1 < b \<Longrightarrow> floorlog b a = Suc (floorlog b (a div b))"
  "floorlog b 0 = 0"
  by (simp_all add: compute_floorlog)

lemma floor_rat_eval:
  "\<lfloor>numeral a / numeral b :: rat\<rfloor> = numeral a div numeral b"
  "\<lfloor>- (numeral a / numeral b) :: rat\<rfloor> = - numeral a div numeral b"
  "\<lfloor>1 / numeral b :: rat\<rfloor> = 1 div numeral b"
  "\<lfloor>- (1 / numeral b) :: rat\<rfloor> = - 1 div numeral b"
proof -
  show "\<lfloor>numeral a / numeral b :: rat\<rfloor> = numeral a div numeral b"
    by (metis floor_divide_of_int_eq of_int_numeral)
  show "\<lfloor>- (numeral a / numeral b) :: rat\<rfloor> = - numeral a div numeral b"
    by (metis divide_minus_left floor_divide_of_int_eq of_int_neg_numeral of_int_numeral)
  show "\<lfloor>1 / numeral b :: rat\<rfloor> = 1 div numeral b"
    by (metis floor_divide_of_int_eq of_int_1 of_int_numeral)
  show "\<lfloor>- (1 / numeral b) :: rat\<rfloor> = - 1 div numeral b"
    by (metis divide_minus_left floor_divide_of_int_eq of_int_minus of_int_1 of_int_numeral)
qed

lemma shortest_digits_eval:
  "shortest_digits x n0 k fuel =
     (if fuel = 0 then (nat \<lfloor>x / pow10 (n0 - int k)\<rfloor>, n0, k)
      else if candidates x n0 k = [] then shortest_digits x n0 (Suc k) (fuel - 1)
      else (fst (closest x k (candidates x n0 k)), snd (closest x k (candidates x n0 k)), k))"
  by (cases fuel) (simp_all add: Let_def)

lemma char_of_eval:
  "(char_of (n :: nat) = c) = (take_bit 8 n = of_char c)"
  "(c = char_of (n :: nat)) = (take_bit 8 n = of_char c)"
proof -
  show "(char_of n = c) = (take_bit 8 n = of_char c)"
    by (rule char_of_eq_iff)
  then show "(c = char_of n) = (take_bit 8 n = of_char c)"
    by (simp add: eq_commute)
qed

lemmas number_eval = round_binary64_def ilog_def pow2_def pow10_def round_half_even_def
  floorlog_eval floor_rat_eval Let_def ceiling_def

lemmas text_eval = char_of_eval is_white_space_def is_digit_def is_upper_def is_lower_def
  trim_def strip_sign_def has_sign_def signed_def digit_value_def digits_value_def

lemmas print_eval = toString_def pos_toString_def shortest_digits_eval candidates_def
  closest_def digits10.simps toFixed_def fixed_digits_def

lemmas arith_eval = or_else_def truthy_def isNaN_def js_add_def js_sub_def js_neg_def
  js_mul_def js_div_def js_ge_def

section \<open>Properties of the string built-ins\<close>

lemma indexOf_from_absent: "ch \<notin> set s \<Longrightarrow> indexOf_from i s [ch] = - 1"
  by (induction s arbitrary: i) auto

lemma indexOf_absent: "ch \<notin> set s \<Longrightarrow> indexOf s [ch] = - 1"
  by (simp add: indexOf_def indexOf_from_absent)

lemma set_trim: "set (trim s) \<subseteq> set s"
proof
  fix x assume "x \<in> set (trim s)"
  then have "x \<in> set (dropWhile is_white_space (rev (dropWhile is_white_space s)))"
    by (simp add: trim_def)
  then have "x \<in> set (rev (dropWhile is_white_space s))"
    by (rule set_dropWhileD)
  then have "x \<in> set (dropWhile is_white_space s)"
    by simp
  then show "x \<in> set s"
    by (rule set_dropWhileD)
qed

lemma trim_Nil: "trim [] = []"
  by (simp add: trim_def)

lemma substring_to_negative: "b \<le> 0 \<Longrightarrow> substring s 0 b = []"
  by (simp add: substring_def Let_def)

lemma length_toUpperCase: "length (toUpperCase s) = length s"
  by (simp add: toUpperCase_def)

lemma not_lower_upper_char: "\<not> is_lower (upper_char ch)"
proof (cases "is_lower ch")
  case True
  then have "(of_char ch :: nat) - 32 < 256" and "65 \<le> (of_char ch :: nat) - 32"
    and "(of_char ch :: nat) - 32 \<le> 90"
    by (auto simp: is_lower_def)
  then show ?thesis using True
    by (simp add: upper_char_def is_lower_def)
next
  case False
  then show ?thesis by (simp add: upper_char_def)
qed

lemma toUpperCase_upper: "list_all (\<lambda>ch. \<not> is_lower ch) (toUpperCase s)"
  by (simp add: toUpperCase_def list_all_iff not_lower_upper_char)

lemma REGNO_RE_length: "REGNO_RE s \<Longrightarrow> length s = 10"
  by (simp add: REGNO_RE_def)

lemma sample_regno: "REGNO_RE ''abc20cs001''"
  by (simp add: REGNO_RE_def is_upper_def is_lower_def is_digit_def)

lemma sample_regno_upper: "REGNO_RE ''ABC20CS001''"
  by (simp add: REGNO_RE_def is_upper_def is_lower_def is_digit_def)

lemma sample_upper: "toUpperCase ''abc20cs001'' = ''ABC20CS001''"
  by (simp add: toUpperCase_def upper_char_def text_eval)


section \<open>Properties of the number built-ins\<close>

lemma or_else_zero: "or_else x (Fin 0) = (if x = NaN then Fin 0 else x)"
  by (simp add: or_else_def truthy_def)

lemma digits10_small: "n < 10 \<Longrightarrow> digits10 n = [''0123456789'' ! n]"
  by (subst digits10.simps) simp

lemma digits10_step:
  "10 \<le> n \<Longrightarrow> digits10 n = digits10 (n div 10) @ [''0123456789'' ! (n mod 10)]"
  by (subst digits10.simps) simp

lemma digits10_nonempty: "digits10 n \<noteq> []"
  by (subst digits10.simps) simp

lemma digits10_two:
  "100 \<le> n \<Longrightarrow>
     digits10 n = digits10 (n div 100)
                    @ [''0123456789'' ! (n div 10 mod 10), ''0123456789'' ! (n mod 10)]"
proof -
  assume n: "100 \<le> n"
  then have a: "10 \<le> n" and b: "10 \<le> n div 10" by auto
  have "n div 10 div 10 = n div 100" by (simp add: div_mult2_eq)
  then show ?thesis
    using digits10_step[OF a] digits10_step[OF b] by simp
qed

lemma fixed_digits_two:
  "fixed_digits n 2 = digits10 (n div 100) @ ''.''
       @ [''0123456789'' ! (n div 10 mod 10), ''0123456789'' ! (n mod 10)]"
proof -
  consider "n < 10" | "10 \<le> n" "n < 100" | "100 \<le> n" by linarith
  then show ?thesis
  proof cases
    case 1
    then show ?thesis
      by (simp add: fixed_digits_def digits10_small numeral_3_eq_3)
  next
    case 2
    then have "n div 10 < 10" by auto
    with 2 show ?thesis
      by (simp add: fixed_digits_def digits10_step digits10_small)
  next
    case 3
    have "Suc 0 \<le> length (digits10 (n div 100))"
      using digits10_nonempty[of "n div 100"] by (cases "digits10 (n div 100)") simp_all
    with 3 show ?thesis
      by (simp add: fixed_digits_def digits10_two)
  qed
qed

lemma toFixed_two_decimals:
  assumes "\<bar>q\<bar> < 10 ^ 21"
  shows "toFixed (Fin q) 2 = two_decimals q"
proof -
  have small: "\<not> pow10 21 \<le> \<bar>q\<bar>"
    using assms by (simp add: pow10_def)
  have hundred: "pow10 (int 2) = 100"
    by (simp add: pow10_def)
  have "toFixed (Fin q) 2
          = (if q < 0 then ''-'' @ fixed_digits (nat \<lfloor>\<bar>q\<bar> * 100 + 1 / 2\<rfloor>) 2
             else fixed_digits (nat \<lfloor>\<bar>q\<bar> * 100 + 1 / 2\<rfloor>) 2)"
    unfolding toFixed_def Let_def number.case hundred using small by (simp only: if_False)
  then show ?thesis
    by (cases "q < 0") (simp_all only: two_decimals_def Let_def fixed_digits_two append.simps
        if_True if_False)
qed

lemma toFixed_large:
  assumes "10 ^ 21 \<le> \<bar>q\<bar>"
  shows "toFixed (Fin q) f = toString (Fin q)"
proof -
  have large: "pow10 21 \<le> \<bar>q\<bar>"
    using assms by (simp add: pow10_def)
  have nz: "q \<noteq> 0" "\<bar>q\<bar> \<noteq> 0" "\<not> \<bar>q\<bar> < 0"
    using assms by auto
  have "toFixed (Fin q) f = (if q < 0 then ''-'' @ toString (Fin \<bar>q\<bar>) else toString (Fin \<bar>q\<bar>))"
    unfolding toFixed_def Let_def number.case using large by (simp only: if_True)
  also have "\<dots> = toString (Fin q)"
    using nz by (cases "q < 0") (simp_all add: toString_def)
  finally show ?thesis .
qed

lemma toFixed_percent_text: "toFixed r 2 @ ''%'' = percent_text r"
proof (cases r)
  case (Fin q)
  show ?thesis
  proof (cases "\<bar>q\<bar> < 10 ^ 21")
    case True
    then show ?thesis by (simp add: Fin percent_text_def toFixed_two_decimals)
  next
    case False
    then have "10 ^ 21 \<le> \<bar>q\<bar>" by simp
    then have "toFixed (Fin q) 2 = toString (Fin q)" by (rule toFixed_large)
    with False show ?thesis by (simp add: Fin percent_text_def)
  qed
qed (simp_all add: percent_text_def toFixed_def)

lemma parseFloat_empty: "parseFloat [] = NaN"
  by (simp add: parseFloat_def strip_sign_def has_sign_def Let_def)

section \<open>The HTTP client\<close>

lemma makeRequest_eq: "makeRequest nt t u opts n = makeRequest_loop nt (request_of u opts) n 0 t"
  by (simp add: makeRequest_def request_of_def)

lemma makeRequest_loop_three:
  "makeRequest_loop nt req 3 0 t =
     (case nt t req of
        Inr r \<Rightarrow> (Inr (Some r), t + 1, [HttpAttempt req])
      | Inl e1 \<Rightarrow>
          (case nt (t + 1) req of
             Inr r \<Rightarrow> (Inr (Some r), t + 2, [HttpAttempt req, Backoff 1000, HttpAttempt req])
           | Inl e2 \<Rightarrow>
               (case nt (t + 2) req of
                  Inr r \<Rightarrow>
                    (Inr (Some r), t + 3,
                     [HttpAttempt req, Backoff 1000, HttpAttempt req, Backoff 2000,
                      HttpAttempt req])
                | Inl e3 \<Rightarrow>
                    (Inl e3, t + 3,
                     [HttpAttempt req, Backoff 1000, HttpAttempt req, Backoff 2000,
                      HttpAttempt req]))))"
  by (simp add: makeRequest_loop.simps[of _ _ 3] split: sum.splits)

lemma makeRequest_loop_law:
  "case makeRequest_loop nt req n i t of
     (res, t', tr) \<Rightarrow>
        attempts tr \<le> n - i \<and> t' = t + attempts tr
        \<and> backoffs tr = map (\<lambda>j. 1000 * (j + 1)) [i ..< i + (attempts tr - 1)]
        \<and> set tr \<subseteq> {HttpAttempt req} \<union> range Backoff"
proof (induction nt req n i t rule: makeRequest_loop.induct)
  case (1 nt opts retries i tick)
  show ?case
  proof (cases "i < retries")
    case False
    then show ?thesis by (subst makeRequest_loop.simps) simp
  next
    case lt: True
    show ?thesis
    proof (cases "nt tick opts")
      case (Inr r)
      with lt show ?thesis by (subst makeRequest_loop.simps) simp
    next
      case (Inl err)
      show ?thesis
      proof (cases "i = retries - 1")
        case True
        with lt Inl show ?thesis by (subst makeRequest_loop.simps) simp
      next
        case False
        obtain r t' tr where
          rec: "makeRequest_loop nt opts retries (Suc i) (Suc tick) = (r, t', tr)"
          by (cases "makeRequest_loop nt opts retries (Suc i) (Suc tick)") auto
        have ih: "attempts tr \<le> retries - Suc i \<and> t' = Suc tick + attempts tr
          \<and> backoffs tr = map (\<lambda>j. 1000 * (j + 1)) [Suc i ..< Suc i + (attempts tr - 1)]
          \<and> set tr \<subseteq> {HttpAttempt opts} \<union> range Backoff"
          using "1.IH"[OF lt Inl False] rec by simp
        have pos: "0 < attempts tr"
        proof -
          have "Suc i < retries" using lt False by arith
          then show ?thesis using rec
            by (subst (asm) makeRequest_loop.simps) (auto split: sum.splits if_splits prod.splits)
        qed
        have "[i ..< i + attempts tr] = i # [Suc i ..< Suc i + (attempts tr - 1)]"
          using pos by (simp add: upt_rec)
        with lt Inl False rec ih pos show ?thesis
          by (subst makeRequest_loop.simps) auto
      qed
    qed
  qed
qed

text \<open>
  Claim C2. With the default of three retries \<open>makeRequest\<close> makes at most three attempts:
  the first response is returned at once, a failed attempt that is not the last is
  followed by a wait of 1000 ms times its number, and after the third failure the error
  of the third attempt is thrown as it is, status included. For any number of retries the
  attempts are at most that many and the waits are 1000, 2000, 3000, ... ms, one after
  each attempt but the last.
\<close>

theorem makeRequest_bounded_retry:
  "makeRequest nt t u opts default_retries =
     (case nt t (request_of u opts) of
        Inr r \<Rightarrow> (Inr (Some r), t + 1, [HttpAttempt (request_of u opts)])
      | Inl e1 \<Rightarrow>
          (case nt (t + 1) (request_of u opts) of
             Inr r \<Rightarrow>
               (Inr (Some r), t + 2,
                [HttpAttempt (request_of u opts), Backoff 1000, HttpAttempt (request_of u opts)])
           | Inl e2 \<Rightarrow>
               (case nt (t + 2) (request_of u opts) of
                  Inr r \<Rightarrow>
                    (Inr (Some r), t + 3,
                     [HttpAttempt (request_of u opts), Backoff 1000,
                      HttpAttempt (request_of u opts), Backoff 2000,
                      HttpAttempt (request_of u opts)])
                | Inl e3 \<Rightarrow>
                    (Inl e3, t + 3,
                     [HttpAttempt (request_of u opts), Backoff 1000,
                      HttpAttempt (request_of u opts), Backoff 2000,
                      HttpAttempt (request_of u opts)]))))
   \<and> (case makeRequest nt t u opts n of
         (res, t', tr) \<Rightarrow>
           attempts tr \<le> n \<and> t' = t + attempts tr
           \<and> backoffs tr = map (\<lambda>j. 1000 * (j + 1)) [0 ..< attempts tr - 1])"
proof -
  have "case makeRequest nt t u opts n of
         (res, t', tr) \<Rightarrow>
           attempts tr \<le> n \<and> t' = t + attempts tr
           \<and> backoffs tr = map (\<lambda>j. 1000 * (j + 1)) [0 ..< attempts tr - 1]"
    using makeRequest_loop_law[where nt = nt and req = "request_of u opts" and n = n
        and i = 0 and t = t]
    by (auto simp: makeRequest_eq)
  then show ?thesis
    by (simp add: makeRequest_eq default_retries_def makeRequest_loop_three)
qed

theorem makeRequest_bounded_retry_witness:
  "makeRequest flaky_net 0 ''https://ktu.edu.in/'' get_options default_retries
     = (Inr (Some sample_response), 3,
        [HttpAttempt (request_of ''https://ktu.edu.in/'' get_options), Backoff 1000,
         HttpAttempt (request_of ''https://ktu.edu.in/'' get_options), Backoff 2000,
         HttpAttempt (request_of ''https://ktu.edu.in/'' get_options)])
   \<and> makeRequest down_net 0 ''https://ktu.edu.in/'' get_options default_retries
     = (Inl unavailable_error, 3,
        [HttpAttempt (request_of ''https://ktu.edu.in/'' get_options), Backoff 1000,
         HttpAttempt (request_of ''https://ktu.edu.in/'' get_options), Backoff 2000,
         HttpAttempt (request_of ''https://ktu.edu.in/'' get_options)])
   \<and> response_status unavailable_error = Some 503
   \<and> backoffs (snd (snd (makeRequest down_net 0 ''https://ktu.edu.in/'' get_options 4)))
     = [1000, 2000, 3000]"
  using makeRequest_bounded_retry [of flaky_net 0 "''https://ktu.edu.in/''" get_options 3]
    makeRequest_bounded_retry [of down_net 0 "''https://ktu.edu.in/''" get_options 4]
  by (simp add: flaky_net_def down_net_def unavailable_error_def makeRequest_eq
      makeRequest_loop.simps[of _ _ 4])

section \<open>Effects of the handlers\<close>

lemma makeRequest_events:
  "makeRequest nt t u opts n = (res, t', tr) \<Longrightarrow> list_all (\<lambda>ev. \<not> is_cache_event ev) tr"
  using makeRequest_loop_law[where nt = nt and req = "request_of u opts" and n = n
      and i = 0 and t = t]
  by (auto simp: makeRequest_eq list_all_iff)

lemma makeRequest_attempts:
  "makeRequest nt t u opts n = (res, t', tr) \<Longrightarrow> 0 < n \<Longrightarrow> tr \<noteq> []"
  by (subst (asm) makeRequest_eq, subst (asm) makeRequest_loop.simps)
     (auto split: sum.splits if_splits prod.splits)

lemma loginStudent_events:
  "loginStudent run = (res, tr) \<Longrightarrow> list_all (\<lambda>ev. \<not> is_cache_event ev) tr"
  by (auto simp: loginStudent_def Let_def split: if_splits option.splits)

lemma try_urls_events:
  "try_urls nt examId us t resp = (r, su, t', tr) \<Longrightarrow> list_all (\<lambda>ev. \<not> is_cache_event ev) tr"
proof (induction us arbitrary: t resp r su t' tr)
  case Nil
  then show ?case by simp
next
  case (Cons u us)
  obtain res t1 tr1 where
    m: "makeRequest nt t (with_examId u examId) get_options default_retries = (res, t1, tr1)"
    by (cases "makeRequest nt t (with_examId u examId) get_options default_retries") auto
  have e1: "list_all (\<lambda>ev. \<not> is_cache_event ev) tr1"
    using m by (rule makeRequest_events)
  show ?case
  proof (cases res)
    case (Inl err)
    obtain r2 su2 t2 tr2 where rec: "try_urls nt examId us t1 resp = (r2, su2, t2, tr2)"
      by (cases "try_urls nt examId us t1 resp") auto
    from Cons.IH[OF rec] e1 Cons.prems m Inl rec show ?thesis by auto
  next
    case (Inr x)
    show ?thesis
    proof (cases "usable x")
      case True
      with Cons.prems m Inr e1 show ?thesis by auto
    next
      case False
      obtain r2 su2 t2 tr2 where rec: "try_urls nt examId us t1 x = (r2, su2, t2, tr2)"
        by (cases "try_urls nt examId us t1 x") auto
      from Cons.IH[OF rec] e1 Cons.prems m Inr rec False show ?thesis by auto
    qed
  qed
qed

lemma try_urls_nonempty:
  "try_urls nt examId (u # us) t resp = (r, su, t', tr) \<Longrightarrow> tr \<noteq> []"
proof -
  assume a: "try_urls nt examId (u # us) t resp = (r, su, t', tr)"
  obtain res t1 tr1 where
    m: "makeRequest nt t (with_examId u examId) get_options default_retries = (res, t1, tr1)"
    by (cases "makeRequest nt t (with_examId u examId) get_options default_retries") auto
  have "tr1 \<noteq> []"
    using makeRequest_attempts[OF m] by (simp add: default_retries_def)
  then show ?thesis using a m
    by (auto split: sum.splits if_splits prod.splits)
qed

lemma loginStudent_trace:
  "loginStudent run = (res, tr) \<Longrightarrow> set tr \<subseteq> {BrowserLaunch, BrowserClose}"
  by (auto simp: loginStudent_def Let_def split: if_splits option.splits)

lemma makeRequest_requests:
  "makeRequest nt t u opts n = (res, t', tr) \<Longrightarrow> HttpAttempt rq \<in> set tr \<Longrightarrow> request_url rq = u"
  using makeRequest_loop_law[where nt = nt and req = "request_of u opts" and n = n
      and i = 0 and t = t]
  by (auto simp: makeRequest_eq request_of_def)

lemma try_urls_requests:
  "try_urls nt examId us t resp = (r, su, t', tr) \<Longrightarrow>
     (\<forall>rq. HttpAttempt rq \<in> set tr
            \<longrightarrow> request_url rq \<in> (\<lambda>u. with_examId u examId) ` set us)
     \<and> (\<forall>u. su = Some u \<longrightarrow> u \<in> set us)"
proof (induction us arbitrary: t resp r su t' tr)
  case Nil
  then show ?case by simp
next
  case (Cons u us)
  obtain res t1 tr1 where
    m: "makeRequest nt t (with_examId u examId) get_options default_retries = (res, t1, tr1)"
    by (cases "makeRequest nt t (with_examId u examId) get_options default_retries") auto
  have e1: "\<forall>rq. HttpAttempt rq \<in> set tr1 \<longrightarrow> request_url rq = with_examId u examId"
    using makeRequest_requests[OF m] by blast
  show ?case
  proof (cases res)
    case (Inl err)
    obtain r2 su2 t2 tr2 where rec: "try_urls nt examId us t1 resp = (r2, su2, t2, tr2)"
      by (cases "try_urls nt examId us t1 resp") auto
    from Cons.IH[OF rec] e1 Cons.prems m Inl rec show ?thesis by auto
  next
    case (Inr x)
    show ?thesis
    proof (cases "usable x")
      case True
      with Cons.prems m Inr e1 show ?thesis by auto
    next
      case False
      obtain r2 su2 t2 tr2 where rec: "try_urls nt examId us t1 x = (r2, su2, t2, tr2)"
        by (cases "try_urls nt examId us t1 x") auto
      from Cons.IH[OF rec] e1 Cons.prems m Inr rec False show ?thesis by auto
    qed
  qed
qed




lemma profile_read_through:
  "read_through (profile_key regNo) c (clock_set e) (profile_route e c regNo password)"
proof -
  obtain res tr where l: "loginStudent (browser e regNo password) = (res, tr)"
    by (cases "loginStudent (browser e regNo password)") auto
  have ev: "list_all (\<lambda>ev. \<not> is_cache_event ev) tr"
    using l by (rule loginStudent_events)
  show ?thesis
    using l ev
    by (auto simp: read_through_def profile_route_def Let_def error_reply_def
        split: option.splits sum.splits)
qed

lemma results_read_through:
  "read_through (results_key regNo examId) c (clock_set e) (results_route e c regNo examId)"
proof -
  obtain r su t tr where
    l: "try_urls (net e) examId (resultsUrls regNo) 0 None = (r, su, t, tr)"
    by (cases "try_urls (net e) examId (resultsUrls regNo) 0 None") auto
  have ev: "list_all (\<lambda>ev. \<not> is_cache_event ev) tr"
    using l by (rule try_urls_events)
  have ne: "tr \<noteq> []"
    using l unfolding resultsUrls_def by (rule try_urls_nonempty)
  show ?thesis
    using l ev ne
    by (auto simp: read_through_def results_route_def Let_def error_reply_def
        simp del: try_urls.simps split: option.splits sum.splits)
qed

lemma announcements_read_through:
  "read_through ''announcements'' c (clock_set e) (announcements_route e c)"
proof -
  obtain res t tr where
    l: "makeRequest (net e) 0 ''https://ktu.edu.in/eu/core/announcements.htm''
          get_options default_retries = (res, t, tr)"
    by (cases "makeRequest (net e) 0 ''https://ktu.edu.in/eu/core/announcements.htm''
                 get_options default_retries") auto
  have ev: "list_all (\<lambda>ev. \<not> is_cache_event ev) tr"
    using l by (rule makeRequest_events)
  have ne: "tr \<noteq> []"
    using makeRequest_attempts[OF l] by (simp add: default_retries_def)
  show ?thesis
    using l ev ne
    by (auto simp: read_through_def announcements_route_def Let_def error_reply_def
        split: option.splits sum.splits)
qed

lemma attendance_no_cache:
  "case attendance_route e c regNo password of
     (rep, c', tr) \<Rightarrow> c' = c \<and> list_all (\<lambda>ev. \<not> is_cache_event ev) tr"
proof -
  obtain res tr where l: "loginStudent (browser e regNo password) = (res, tr)"
    by (cases "loginStudent (browser e regNo password)") auto
  have ev: "list_all (\<lambda>ev. \<not> is_cache_event ev) tr"
    using l by (rule loginStudent_events)
  have ev2: "makeRequest (net e) 0 u opts default_retries = (res', t', tr')
     \<Longrightarrow> list_all (\<lambda>ev. \<not> is_cache_event ev) tr'" for u opts res' t' tr'
    by (rule makeRequest_events)
  show ?thesis
    using l ev
    by (auto simp: attendance_route_def Let_def error_reply_def
        split: option.splits sum.splits prod.splits dest: ev2)
qed

lemma attendance_route_cache: "fst (snd (attendance_route e c regNo password)) = c"
  using attendance_no_cache[where e = e and c = c and regNo = regNo and password = password]
  by (cases "attendance_route e c regNo password") simp

lemma read_through_failure:
  "read_through k c now (rep, c', tr) \<Longrightarrow> status_code rep \<noteq> 200 \<Longrightarrow> c' = c"
  by (auto simp: read_through_def)

section \<open>Evaluation at the sample world\<close>

lemma sample_login:
  "loginStudent (browser sample_env r p)
     = (Inr (Some ''<html>details</html>''), [BrowserLaunch, BrowserClose])"
  by (simp add: loginStudent_def sample_env_def sample_run_def)

lemma sample_request:
  "makeRequest (net sample_env) t u opts default_retries
     = (Inr (Some sample_response), t + 1, [HttpAttempt (request_of u opts)])"
  by (simp add: makeRequest_eq default_retries_def makeRequest_loop_three sample_env_def)

lemma sample_get_request:
  "request_of u get_options = \<lparr>http_method = ''GET'', request_url = u, headers = defaultHeaders\<rparr>"
  by (simp add: request_of_def get_options_def merge_headers_def)

lemma sample_profile_run:
  "profile_route sample_env Map.empty ''abc20cs001'' ''secret''
     = (Reply 200 (Record_body (VProfile (extract_profile sample_page ''abc20cs001'')) False),
        cache_set Map.empty 2000 ''profile_ABC20CS001''
          (VProfile (extract_profile sample_page ''abc20cs001'')),
        [CacheGet ''profile_ABC20CS001'', Login ''abc20cs001'' ''secret'', BrowserLaunch,
         BrowserClose, CacheSet ''profile_ABC20CS001''])"
  using sample_regno
  by (simp add: profile_route_def Let_def sample_login cache_get_def profile_key_def
      sample_upper)
     (simp add: sample_env_def)

lemma sample_attendance_run:
  assumes "REGNO_RE r" and "p \<noteq> []"
  shows "attendance_route sample_env c r p
     = (Reply 200
          (Record_body
             (VAttendance (extract_attendance sample_attendance_rows
                             ''2025-11-02T00:00:00.000Z'')) False),
        c,
        [Login r p, BrowserLaunch, BrowserClose,
         HttpAttempt \<lparr>http_method = ''GET'',
                      request_url = ''https://app.ktu.edu.in/attendance.htm'',
                      headers = defaultHeaders @ [(''Cookie'', ''<html>details</html>'')]\<rparr>])"
proof -
  have "r \<noteq> []" using assms(1) by (auto simp: REGNO_RE_def)
  then show ?thesis
    using assms
    by (simp add: attendance_route_def Let_def sample_login sample_request request_of_def
        merge_headers_def defaultHeaders_def)
       (simp add: sample_env_def sample_response_def truthy_value_def cheerio_load_def or_empty_def)
qed

lemma sample_results_extract:
  "results (extract_results sample_results_page regNo su)
     = [\<lparr>examName = ''S1 Exam'', examDate = ''2021'', exam_sgpa = ''8.1'', exam_cgpa = ''N/A'',
         exam_subjects = [\<lparr>code = ''CS101'', subject_name = ''Programming'',
                            subject_credits = ''4'', grade = ''A'', gradePoint = []\<rparr>]\<rparr>]"
  by (simp add: extract_results_def sample_results_page_def exam_step_def exam_row_step_def
      nth_text_def or_text_def Let_def trim_def is_white_space_def)

lemma sample_results_run:
  "results_route sample_env Map.empty ''abc20cs001'' None
     = (Reply 200
          (Record_body
             (VResults (extract_results sample_results_page ''abc20cs001''
                          ''https://app.ktu.edu.in/public/results?registerNo=abc20cs001''))
             False),
        cache_set Map.empty 2000 ''results_ABC20CS001_all''
          (VResults (extract_results sample_results_page ''abc20cs001''
                       ''https://app.ktu.edu.in/public/results?registerNo=abc20cs001'')),
        [CacheGet ''results_ABC20CS001_all'',
         HttpAttempt \<lparr>http_method = ''GET'',
                      request_url = ''https://app.ktu.edu.in/public/results?registerNo=abc20cs001'',
                      headers = defaultHeaders\<rparr>,
         CacheSet ''results_ABC20CS001_all''])"
  using sample_regno
  by (simp add: results_route_def Let_def cache_get_def results_key_def exam_or_all_def
      sample_upper resultsUrls_def sample_request with_examId_def usable_def
      sample_get_request sample_results_extract)
     (simp add: sample_env_def sample_response_def sample_results_extract truthy_value_def
        cheerio_load_def or_empty_def Let_def)

section \<open>The cache invariant\<close>

lemma cache_ok_set: "cache_ok c \<Longrightarrow> entry_ok k v \<Longrightarrow> cache_ok (cache_set c now k v)"
  by (auto simp: cache_ok_def cache_set_def)

lemma cache_ok_get: "cache_ok c \<Longrightarrow> cache_get c now k = Some v \<Longrightarrow> entry_ok k v"
  by (auto simp: cache_ok_def cache_get_def split: option.splits if_splits)

lemma foldl_exam_step_subjects:
  "\<forall>x \<in> set acc. exam_subjects x \<noteq> [] \<Longrightarrow>
   \<forall>x \<in> set (foldl exam_step acc elems). exam_subjects x \<noteq> []"
proof (induction elems arbitrary: acc)
  case Nil
  then show ?case by simp
next
  case (Cons a elems)
  have "\<forall>x \<in> set (exam_step acc a). exam_subjects x \<noteq> []"
    using Cons.prems by (auto simp: exam_step_def Let_def)
  then show ?case using Cons.IH by simp
qed

lemma extract_results_registerNo:
  "results_registerNo (extract_results page regNo su) = toUpperCase regNo"
  by (simp add: extract_results_def)

lemma extract_results_subjects:
  "\<forall>x \<in> set (results (extract_results page regNo su)). exam_subjects x \<noteq> []"
  using foldl_exam_step_subjects[of "[]" "exam_elems page"]
  by (simp add: extract_results_def)

lemma extract_results_ok:
  "results (extract_results page regNo su) \<noteq> [] \<Longrightarrow> results_ok (extract_results page regNo su)"
  using extract_results_subjects by (simp add: results_ok_def)

lemma profile_route_cases:
  "profile_route e c regNo password = (rep, c', tr) \<Longrightarrow>
     c' = c \<or> (\<exists>p. c' = cache_set c (clock_set e) (profile_key regNo) (VProfile p)
                  \<and> registerNo p = toUpperCase regNo \<and> REGNO_RE regNo
                  \<and> rep = Reply 200 (Record_body (VProfile p) False))"
  by (auto simp: profile_route_def Let_def extract_profile_def
      split: if_splits option.splits sum.splits prod.splits)

lemma results_route_cases:
  "results_route e c regNo examId = (rep, c', tr) \<Longrightarrow>
     (c' = c \<and> (status_code rep = 400 \<or> status_code rep = 404 \<or> status_code rep = 500
                 \<or> (\<exists>v. cache_get c (clock_get e) (results_key regNo examId) = Some v
                          \<and> REGNO_RE regNo \<and> rep = Reply 200 (Record_body v True))))
     \<or> (\<exists>r. c' = cache_set c (clock_set e) (results_key regNo examId) (VResults r)
             \<and> results_registerNo r = toUpperCase regNo \<and> REGNO_RE regNo \<and> results_ok r
             \<and> rep = Reply 200 (Record_body (VResults r) False))"
  by (auto simp: results_route_def Let_def error_reply_def
      extract_results_registerNo extract_results_ok
      split: if_splits option.splits sum.splits prod.splits)

lemma announcements_route_cases:
  "announcements_route e c = (rep, c', tr) \<Longrightarrow>
     c' = c \<or> (\<exists>a. c' = cache_set c (clock_set e) ''announcements'' (VAnnouncements a))"
  by (auto simp: announcements_route_def Let_def
      split: if_splits option.splits sum.splits prod.splits)

lemma reachable_cache_ok: "reachable c \<Longrightarrow> cache_ok c"
proof (induction rule: reachable.induct)
  case start
  then show ?case by (simp add: cache_ok_def)
next
  case (profile c e regNo password)
  obtain rep c' tr where r: "profile_route e c regNo password = (rep, c', tr)"
    by (cases "profile_route e c regNo password") auto
  from profile_route_cases[OF r] profile.IH show ?case
    by (auto simp: r profile_key_def entry_ok_def intro!: cache_ok_set)
next
  case (results c e regNo examId)
  obtain rep c' tr where r: "results_route e c regNo examId = (rep, c', tr)"
    by (cases "results_route e c regNo examId") auto
  from results_route_cases[OF r] results.IH show ?case
    by (auto simp: r results_key_def entry_ok_def length_toUpperCase REGNO_RE_length
        intro!: cache_ok_set)
next
  case (attendance c e regNo password)
  then show ?case by (simp add: attendance_route_cache)
next
  case (announcements c e)
  obtain rep c' tr where r: "announcements_route e c = (rep, c', tr)"
    by (cases "announcements_route e c") auto
  from announcements_route_cases[OF r] announcements.IH show ?case
    by (auto simp: r entry_ok_def intro!: cache_ok_set)
qed

lemma results_entry:
  "entry_ok (results_key regNo examId) v \<Longrightarrow> REGNO_RE regNo \<Longrightarrow>
     \<exists>r. v = VResults r \<and> results_ok r \<and> results_registerNo r = toUpperCase regNo"
  by (cases v) (auto simp: entry_ok_def results_key_def prefix_def length_toUpperCase
      dest!: REGNO_RE_length)

lemma profile_entry:
  "entry_ok (profile_key regNo) v \<Longrightarrow> \<exists>p. v = VProfile p \<and> registerNo p = toUpperCase regNo"
  by (cases v) (auto simp: entry_ok_def profile_key_def prefix_def)

section \<open>The public results\<close>





section \<open>The profile cache\<close>



section \<open>The read-through pattern\<close>

text \<open>
  Claim C8, as amended. The profile, public-results and announcements handlers follow the
  read-through pattern: the cache is read first and before anything is fetched, and it is
  written only as the last effect of a run that answers 200 with a freshly built record.
  The attendance handler neither reads nor writes the cache. On every run of the four
  handlers that does not answer 200 the cache is left as it was.
\<close>

theorem cache_read_through:
  "read_through (profile_key regNo) c (clock_set e) (profile_route e c regNo password)
   \<and> read_through (results_key regNo examId) c (clock_set e) (results_route e c regNo examId)
   \<and> read_through ''announcements'' c (clock_set e) (announcements_route e c)
   \<and> (case attendance_route e c regNo password of
         (rep, c', tr) \<Rightarrow> c' = c \<and> list_all (\<lambda>ev. \<not> is_cache_event ev) tr)
   \<and> (\<forall>out \<in> {profile_route e c regNo password, results_route e c regNo examId,
                 attendance_route e c regNo password, announcements_route e c}.
          status_code (fst out) \<noteq> 200 \<longrightarrow> fst (snd out) = c)"
proof -
  have p: "read_through (profile_key regNo) c (clock_set e) (profile_route e c regNo password)"
    by (rule profile_read_through)
  have r: "read_through (results_key regNo examId) c (clock_set e)
             (results_route e c regNo examId)"
    by (rule results_read_through)
  have a: "read_through ''announcements'' c (clock_set e) (announcements_route e c)"
    by (rule announcements_read_through)
  have t: "case attendance_route e c regNo password of
             (rep, c', tr) \<Rightarrow> c' = c \<and> list_all (\<lambda>ev. \<not> is_cache_event ev) tr"
    by (rule attendance_no_cache)
  have f: "read_through k c now out \<Longrightarrow> status_code (fst out) \<noteq> 200 \<Longrightarrow> fst (snd out) = c"
    for k now out
    by (cases out) (auto dest: read_through_failure)
  have "fst (snd (attendance_route e c regNo password)) = c"
    by (rule attendance_route_cache)
  with p r a t f[OF p] f[OF r] f[OF a] show ?thesis
    by simp
qed

lemma offline_profile_run:
  "fst (profile_route offline_env Map.empty ''abc20cs001'' ''secret'')
     = Reply 401 (Error_body [(''error'', ''Invalid credentials or login failed'')])"
  using sample_regno
  by (simp add: profile_route_def Let_def cache_get_def profile_key_def loginStudent_def
      offline_env_def sample_env_def error_reply_def split: option.splits)

theorem cache_read_through_witness:
  "read_through ''profile_ABC20CS001'' Map.empty 2000
     (profile_route sample_env Map.empty ''abc20cs001'' ''secret'')
   \<and> fst (snd (profile_route sample_env Map.empty ''abc20cs001'' ''secret''))
        ''profile_ABC20CS001''
      = Some (VProfile (extract_profile sample_page ''abc20cs001''), 1802000)
   \<and> status_code (fst (profile_route offline_env Map.empty ''abc20cs001'' ''secret'')) = 401
   \<and> fst (snd (profile_route offline_env Map.empty ''abc20cs001'' ''secret'')) = Map.empty"
  using cache_read_through [of "''abc20cs001''" Map.empty sample_env "''secret''" None]
    cache_read_through [of "''abc20cs001''" Map.empty offline_env "''secret''" None]
  by (simp add: offline_profile_run profile_key_def sample_upper sample_profile_run
      cache_set_def stdTTL_def)
     (simp add: sample_env_def)

theorem attendance_skips_cache:
  "hd (snd (snd (attendance_route sample_env Map.empty ''abc20cs001'' ''secret'')))
     = Login ''abc20cs001'' ''secret''
   \<and> list_all (\<lambda>ev. \<not> is_cache_event ev)
        (snd (snd (attendance_route sample_env Map.empty ''abc20cs001'' ''secret'')))
   \<and> fst (snd (attendance_route sample_env Map.empty ''abc20cs001'' ''secret'')) = Map.empty"
  by (simp add: sample_attendance_run sample_regno)

section \<open>The attendance request\<close>

text \<open>
  Claim C7. What the attendance handler sends as the \<open>Cookie\<close> header is the value that
  \<open>loginStudent\<close> returned, and that value is the HTML of the detail page: at the sample
  world the login returns \<open><html>details</html>\<close> and the request for attendance.htm
  carries exactly this text as its cookie.
\<close>

theorem attendance_cookie_is_page_html:
  "fst (loginStudent (browser sample_env ''ABC20CS001'' ''secret''))
     = Inr (page_content sample_run)
   \<and> page_content sample_run = Some ''<html>details</html>''
   \<and> snd (snd (attendance_route sample_env Map.empty ''ABC20CS001'' ''secret''))
     = [Login ''ABC20CS001'' ''secret'', BrowserLaunch, BrowserClose,
        HttpAttempt \<lparr>http_method = ''GET'',
                     request_url = ''https://app.ktu.edu.in/attendance.htm'',
                     headers = defaultHeaders @ [(''Cookie'', ''<html>details</html>'')]\<rparr>]"
  by (simp add: sample_attendance_run sample_regno_upper sample_login sample_run_def)

section \<open>The register number\<close>

text \<open>
  Claim C9, as amended. For a register number of the accepted format, in any letter case,
  and any cache the server can hold: every cache key that the profile and public-results
  handlers read or write is built from the upper-cased register number, and every
  \<open>registerNo\<close> field of a record or error object they return is the upper-cased register
  number, which holds no lower-case letter. The login is called with the register number
  as it was given, every request of the public-results handler goes to one of the three
  result URLs built from the register number as it was given, and \<open>fetchedFrom\<close> of a
  freshly built record is one of these URLs.
\<close>

theorem register_number_upper_in_keys_and_records:
  assumes "reachable c" and "REGNO_RE regNo"
  shows "(case profile_route e c regNo password of
            (rep, c', tr) \<Rightarrow>
              (\<forall>k. CacheGet k \<in> set tr \<or> CacheSet k \<in> set tr
                    \<longrightarrow> k = ''profile_'' @ toUpperCase regNo)
              \<and> (\<forall>v cached. body rep = Record_body v cached
                    \<longrightarrow> (\<exists>p. v = VProfile p \<and> registerNo p = toUpperCase regNo)))
       \<and> (case results_route e c regNo examId of
            (rep, c', tr) \<Rightarrow>
              (\<forall>k. CacheGet k \<in> set tr \<or> CacheSet k \<in> set tr
                    \<longrightarrow> k = ''results_'' @ toUpperCase regNo @ ''_'' @ exam_or_all examId)
              \<and> (\<forall>v cached. body rep = Record_body v cached
                    \<longrightarrow> (\<exists>r. v = VResults r \<and> results_registerNo r = toUpperCase regNo))
              \<and> (\<forall>kvs x. body rep = Error_body kvs \<and> (''registerNo'', x) \<in> set kvs
                    \<longrightarrow> x = toUpperCase regNo))
       \<and> list_all (\<lambda>ch. \<not> is_lower ch) (toUpperCase regNo)
       \<and> (\<forall>r p. Login r p \<in> set (snd (snd (profile_route e c regNo password)))
              \<longrightarrow> r = regNo)
       \<and> (\<forall>rq. HttpAttempt rq \<in> set (snd (snd (results_route e c regNo examId)))
              \<longrightarrow> request_url rq \<in> (\<lambda>u. with_examId u examId) ` set (resultsUrls regNo))
       \<and> (\<forall>r. body (fst (results_route e c regNo examId)) = Record_body (VResults r) False
              \<longrightarrow> fetchedFrom r \<in> set (resultsUrls regNo))"
proof -
  have ok: "cache_ok c" using assms(1) by (rule reachable_cache_ok)
  have hitp: "cache_get c now (profile_key regNo) = Some v
      \<Longrightarrow> \<exists>p. v = VProfile p \<and> registerNo p = toUpperCase regNo" for now v
    using cache_ok_get[OF ok] profile_entry by blast
  have hitr: "cache_get c now (results_key regNo examId) = Some v
      \<Longrightarrow> \<exists>r. v = VResults r \<and> results_registerNo r = toUpperCase regNo" for now v
    using cache_ok_get[OF ok] results_entry[OF _ assms(2)] by blast
  obtain res tr where l: "loginStudent (browser e regNo password) = (res, tr)"
    by (cases "loginStudent (browser e regNo password)") auto
  have ev: "list_all (\<lambda>ev. \<not> is_cache_event ev) tr"
    using l by (rule loginStudent_events)
  have nocache: "list_all (\<lambda>ev. \<not> is_cache_event ev) xs
      \<Longrightarrow> CacheGet k \<notin> set xs \<and> CacheSet k \<notin> set xs" for xs k
    by (auto simp: list_all_iff)
  have P: "case profile_route e c regNo password of
            (rep, c', tr) \<Rightarrow>
              (\<forall>k. CacheGet k \<in> set tr \<or> CacheSet k \<in> set tr
                    \<longrightarrow> k = ''profile_'' @ toUpperCase regNo)
              \<and> (\<forall>v cached. body rep = Record_body v cached
                    \<longrightarrow> (\<exists>p. v = VProfile p \<and> registerNo p = toUpperCase regNo))"
    using l nocache[OF ev]
    by (auto simp: profile_route_def Let_def error_reply_def profile_key_def[symmetric]
        extract_profile_def
        split: option.splits sum.splits dest: hitp)
       (auto simp: profile_key_def)
  obtain r su t tr2 where
    u: "try_urls (net e) examId (resultsUrls regNo) 0 None = (r, su, t, tr2)"
    by (cases "try_urls (net e) examId (resultsUrls regNo) 0 None") auto
  have ev2: "list_all (\<lambda>ev. \<not> is_cache_event ev) tr2"
    using u by (rule try_urls_events)
  have R: "case results_route e c regNo examId of
            (rep, c', tr) \<Rightarrow>
              (\<forall>k. CacheGet k \<in> set tr \<or> CacheSet k \<in> set tr
                    \<longrightarrow> k = ''results_'' @ toUpperCase regNo @ ''_'' @ exam_or_all examId)
              \<and> (\<forall>v cached. body rep = Record_body v cached
                    \<longrightarrow> (\<exists>r. v = VResults r \<and> results_registerNo r = toUpperCase regNo))
              \<and> (\<forall>kvs x. body rep = Error_body kvs \<and> (''registerNo'', x) \<in> set kvs
                    \<longrightarrow> x = toUpperCase regNo)"
    using u nocache[OF ev2]
    by (auto simp: results_route_def Let_def error_reply_def results_key_def[symmetric]
        extract_results_registerNo
        simp del: try_urls.simps
        split: option.splits sum.splits dest: hitr)
       (auto simp: results_key_def)
  have tr: "set tr \<subseteq> {BrowserLaunch, BrowserClose}"
    using l by (rule loginStudent_trace)
  have L: "\<forall>r p. Login r p \<in> set (snd (snd (profile_route e c regNo password))) \<longrightarrow> r = regNo"
    using l tr
    by (auto simp: profile_route_def Let_def error_reply_def split: option.splits sum.splits)
  have urls: "(\<forall>rq. HttpAttempt rq \<in> set tr2
                  \<longrightarrow> request_url rq \<in> (\<lambda>u. with_examId u examId) ` set (resultsUrls regNo))
              \<and> (\<forall>u. su = Some u \<longrightarrow> u \<in> set (resultsUrls regNo))"
    using u by (rule try_urls_requests)
  have U: "\<forall>rq. HttpAttempt rq \<in> set (snd (snd (results_route e c regNo examId)))
              \<longrightarrow> request_url rq \<in> (\<lambda>u. with_examId u examId) ` set (resultsUrls regNo)"
    using u urls
    by (auto simp: results_route_def Let_def error_reply_def
        simp del: try_urls.simps split: option.splits sum.splits)
  have F: "\<forall>r. body (fst (results_route e c regNo examId)) = Record_body (VResults r) False
              \<longrightarrow> fetchedFrom r \<in> set (resultsUrls regNo)"
    using u urls
    by (auto simp: results_route_def Let_def error_reply_def extract_results_def
        simp del: try_urls.simps split: option.splits sum.splits)
  from P R L U F toUpperCase_upper show ?thesis by blast
qed

theorem register_number_upper_in_keys_and_records_witness:
  "reachable Map.empty \<and> REGNO_RE ''abc20cs001''
   \<and> (\<exists>p. body (fst (profile_route sample_env Map.empty ''abc20cs001'' ''secret''))
            = Record_body (VProfile p) False
          \<and> registerNo p = ''ABC20CS001'')
   \<and> (\<exists>r. body (fst (results_route sample_env Map.empty ''abc20cs001'' None))
            = Record_body (VResults r) False
          \<and> results_registerNo r = ''ABC20CS001'')
   \<and> list_all (\<lambda>ch. \<not> is_lower ch) ''ABC20CS001''"
  using register_number_upper_in_keys_and_records
          [where e = sample_env and password = "''secret''" and examId = None,
           OF reachable.start sample_regno]
    reachable.start sample_regno
  by (auto simp: sample_profile_run sample_results_run sample_upper)

theorem portal_gets_register_number_as_given:
  "snd (snd (profile_route sample_env Map.empty ''abc20cs001'' ''secret'')) ! 1
     = Login ''abc20cs001'' ''secret''
   \<and> snd (snd (results_route sample_env Map.empty ''abc20cs001'' None)) ! 1
     = HttpAttempt \<lparr>http_method = ''GET'',
                    request_url = ''https://app.ktu.edu.in/public/results?registerNo=abc20cs001'',
                    headers = defaultHeaders\<rparr>
   \<and> toUpperCase ''abc20cs001'' = ''ABC20CS001''"
  by (simp add: sample_profile_run sample_results_run sample_upper)

section \<open>The profile title\<close>

lemma title_without_parenthesis:
  assumes "CHR ''('' \<notin> set t" and "CHR '')'' \<notin> set t"
  shows "trim (substring (trim t) 0 (indexOf (trim t) ''('')) = []"
    and "trim (substring (trim t) (indexOf (trim t) ''('' + 1) (indexOf (trim t) '')'')) = []"
proof -
  have a: "indexOf (trim t) ''('' = - 1"
    using assms set_trim by (intro indexOf_absent) blast
  have b: "indexOf (trim t) '')'' = - 1"
    using assms set_trim by (intro indexOf_absent) blast
  show "trim (substring (trim t) 0 (indexOf (trim t) ''('')) = []"
    by (simp add: a substring_to_negative trim_Nil)
  show "trim (substring (trim t) (indexOf (trim t) ''('' + 1) (indexOf (trim t) '')'')) = []"
    by (simp add: a b substring_to_negative trim_Nil)
qed

lemma extract_personalInfo_name:
  "name (extract_personalInfo page) =
     trim (substring (trim (profile_title page)) 0 (indexOf (trim (profile_title page)) ''(''))"
  by (simp add: extract_personalInfo_def Let_def split: prod.splits)

lemma extract_personalInfo_admissionNo:
  "admissionNo (extract_personalInfo page) =
     trim (substring (trim (profile_title page)) (indexOf (trim (profile_title page)) ''('' + 1)
             (indexOf (trim (profile_title page)) '')''))"
  by (simp add: extract_personalInfo_def Let_def split: prod.splits)

text \<open>
  Claim C10. When the text of the first \<open>.profile-title\<close> element holds no parenthesis,
  the profile handler (on a cache miss, after a login that returned a page) answers 200
  with a profile whose \<open>personalInfo.name\<close> and \<open>personalInfo.admissionNo\<close> are both
  empty: the title text is dropped, and nothing is thrown.
\<close>

theorem title_without_parenthesis_is_dropped:
  assumes "password \<noteq> []" and "REGNO_RE regNo"
    and "cache_get c (clock_get e) (profile_key regNo) = None"
    and "loginStudent (browser e regNo password) = (Inr (Some html), tr)" and "html \<noteq> []"
    and "CHR ''('' \<notin> set (profile_title (load_profile e html))"
    and "CHR '')'' \<notin> set (profile_title (load_profile e html))"
  shows "\<exists>p c' tr'. profile_route e c regNo password
            = (Reply 200 (Record_body (VProfile p) False), c', tr')
          \<and> name (personalInfo p) = [] \<and> admissionNo (personalInfo p) = []"
proof -
  have "regNo \<noteq> []"
    using assms(2) by (auto simp: REGNO_RE_def)
  then show ?thesis
    using assms title_without_parenthesis[OF assms(6) assms(7)]
    by (simp add: profile_route_def Let_def extract_profile_def
        extract_personalInfo_name extract_personalInfo_admissionNo)
qed

theorem title_without_parenthesis_is_dropped_witness:
  "profile_title (load_profile sample_env ''<html>details</html>'') = '' John Doe ''
   \<and> (\<exists>p c' tr'. profile_route sample_env Map.empty ''abc20cs001'' ''secret''
            = (Reply 200 (Record_body (VProfile p) False), c', tr')
          \<and> name (personalInfo p) = [] \<and> admissionNo (personalInfo p) = [])"
  using title_without_parenthesis_is_dropped
          [of "''secret''" "''abc20cs001''" Map.empty sample_env "''<html>details</html>''"
              "[BrowserLaunch, BrowserClose]"]
  by (simp add: sample_regno cache_get_def sample_login)
     (simp add: sample_env_def sample_page_def)

section \<open>The percentage\<close>

lemma derive_percentage_eq: "derive_percentage s = percentage_of_cgpa s"
  by (simp add: derive_percentage_def percentage_of_cgpa_def isNaN_def Let_def
      toFixed_percent_text)

text \<open>
  Claim C4, as amended. The percentage of the academic record is computed from the \<open>cgpa\<close>
  field and from nothing else. When that field parses (by \<open>parseFloat\<close>) as a number \<open>c\<close>,
  finite or infinite, the percentage is \<open>c * 10 - 2.5\<close> in binary64 arithmetic followed by
  \<open>%\<close>: in decimal notation with exactly two decimals when that value is finite and below
  \<open>10\<^bsup>21\<^esup>\<close> in magnitude, and printed as \<open>Number::toString\<close> prints it otherwise. When the
  field does not parse, and so when it is empty, the percentage is empty.
\<close>

theorem percentage_is_derived_from_cgpa:
  "let ai = extract_academicInfo page; c = parseFloat (cgpa ai);
       r = js_sub (js_mul c (Fin 10)) (Fin (5 / 2))
   in percentage ai = percentage_of_cgpa (cgpa ai)
      \<and> (\<forall>x. c \<noteq> NaN \<and> r = Fin x \<and> \<bar>x\<bar> < 10 ^ 21
              \<longrightarrow> percentage ai = two_decimals x @ ''%'')
      \<and> (c \<noteq> NaN \<and> (\<forall>x. r = Fin x \<longrightarrow> 10 ^ 21 \<le> \<bar>x\<bar>)
              \<longrightarrow> percentage ai = toString r @ ''%'')
      \<and> (c = NaN \<longrightarrow> percentage ai = [])
      \<and> (cgpa ai = [] \<longrightarrow> percentage ai = [])"
proof -
  have p: "percentage (extract_academicInfo page)
             = percentage_of_cgpa (cgpa (extract_academicInfo page))"
    by (simp add: extract_academicInfo_def Let_def derive_percentage_eq)
  have large: "(\<forall>x. r = Fin x \<longrightarrow> 10 ^ 21 \<le> \<bar>x\<bar>) \<Longrightarrow> percent_text r = toString r @ ''%''"
    for r
    by (cases r) (auto simp: percent_text_def)
  show ?thesis
    unfolding Let_def p
    by (auto simp: percentage_of_cgpa_def parseFloat_empty large)
       (simp add: percent_text_def)
qed

lemma sample_cgpa: "cgpa (extract_academicInfo sample_page) = ''8.50''"
  by (simp add: extract_academicInfo_def sample_page_def replace_first_def indexOf_def
      Let_def trim_def is_white_space_def)

lemma sample_cgpa_value: "parseFloat ''8.50'' = Fin (17 / 2)"
  by (simp add: parseFloat_def exponent_part_def number_eval text_eval)

lemma sample_cgpa_percent:
  "js_sub (js_mul (Fin (17 / 2)) (Fin 10)) (Fin (5 / 2)) = Fin (165 / 2)"
  by (simp add: arith_eval number_eval)

lemma sample_percent_text: "two_decimals (165 / 2) = ''82.50''"
  by (simp add: two_decimals_def digits10.simps Let_def floor_rat_eval)

lemma other_cgpa:
  "cgpa (extract_academicInfo (sample_page\<lparr>cgpa_parent_text := ''CGPA : N/A''\<rparr>)) = ''N/A''"
  "cgpa (extract_academicInfo (sample_page\<lparr>cgpa_parent_text := ''CGPA''\<rparr>)) = []"
  "cgpa (extract_academicInfo (sample_page\<lparr>cgpa_parent_text := ''CGPA : 1e21''\<rparr>)) = ''1e21''"
  "cgpa (extract_academicInfo (sample_page\<lparr>cgpa_parent_text := ''CGPA : Infinity''\<rparr>))
     = ''Infinity''"
  by (simp_all add: extract_academicInfo_def sample_page_def replace_first_def indexOf_def
      Let_def trim_def is_white_space_def)

lemma sample_no_cgpa_value: "parseFloat ''N/A'' = NaN"
  by (simp add: parseFloat_def exponent_part_def number_eval text_eval)

lemma large_cgpa_value: "parseFloat ''1e21'' = Fin 1000000000000000000000"
  by (simp add: parseFloat_def exponent_part_def number_eval text_eval)

lemma large_cgpa_percent:
  "js_sub (js_mul (Fin 1000000000000000000000) (Fin 10)) (Fin (5 / 2))
     = Fin 10000000000000000000000"
  by (simp add: arith_eval number_eval)

lemma large_percent_text: "toString (Fin 10000000000000000000000) = ''1e+22''"
  by (simp add: print_eval number_eval)

text \<open>
  The field \<open>8.50\<close> gives \<open>82.50%\<close>, the fields \<open>N/A\<close> and the empty one give the empty
  percentage, and the field \<open>1e21\<close> gives \<open>1e+22%\<close>.
\<close>

theorem percentage_is_derived_from_cgpa_witness:
  "cgpa (extract_academicInfo sample_page) = ''8.50''
   \<and> percentage (extract_academicInfo sample_page) = ''82.50%''
   \<and> cgpa (extract_academicInfo (sample_page\<lparr>cgpa_parent_text := ''CGPA : N/A''\<rparr>)) = ''N/A''
   \<and> percentage (extract_academicInfo (sample_page\<lparr>cgpa_parent_text := ''CGPA : N/A''\<rparr>)) = []
   \<and> cgpa (extract_academicInfo (sample_page\<lparr>cgpa_parent_text := ''CGPA''\<rparr>)) = []
   \<and> percentage (extract_academicInfo (sample_page\<lparr>cgpa_parent_text := ''CGPA''\<rparr>)) = []
   \<and> cgpa (extract_academicInfo (sample_page\<lparr>cgpa_parent_text := ''CGPA : 1e21''\<rparr>)) = ''1e21''
   \<and> percentage (extract_academicInfo (sample_page\<lparr>cgpa_parent_text := ''CGPA : 1e21''\<rparr>))
     = toString (Fin (10 ^ 22)) @ ''%''"
proof -
  have small: "\<bar>165 / 2 :: rat\<bar> < 10 ^ 21"
    by simp
  from percentage_is_derived_from_cgpa[of sample_page]
  have "\<forall>x. parseFloat ''8.50'' \<noteq> NaN
             \<and> js_sub (js_mul (parseFloat ''8.50'') (Fin 10)) (Fin (5 / 2)) = Fin x
             \<and> \<bar>x\<bar> < 10 ^ 21
           \<longrightarrow> percentage (extract_academicInfo sample_page) = two_decimals x @ ''%''"
    unfolding Let_def sample_cgpa by blast
  then have "parseFloat ''8.50'' \<noteq> NaN
             \<and> js_sub (js_mul (parseFloat ''8.50'') (Fin 10)) (Fin (5 / 2)) = Fin (165 / 2)
             \<and> \<bar>165 / 2 :: rat\<bar> < 10 ^ 21
           \<longrightarrow> percentage (extract_academicInfo sample_page) = two_decimals (165 / 2) @ ''%''"
    by (rule spec)
  then have a: "percentage (extract_academicInfo sample_page) = ''82.50%''"
    using small by (simp add: sample_cgpa_value sample_cgpa_percent sample_percent_text)
  from percentage_is_derived_from_cgpa[of "sample_page\<lparr>cgpa_parent_text := ''CGPA : N/A''\<rparr>"]
  have "parseFloat ''N/A'' = NaN
         \<longrightarrow> percentage (extract_academicInfo (sample_page\<lparr>cgpa_parent_text := ''CGPA : N/A''\<rparr>))
               = []"
    unfolding Let_def other_cgpa by blast
  then have b: "percentage (extract_academicInfo (sample_page\<lparr>cgpa_parent_text := ''CGPA : N/A''\<rparr>))
                 = []"
    using sample_no_cgpa_value by simp
  from percentage_is_derived_from_cgpa[of "sample_page\<lparr>cgpa_parent_text := ''CGPA''\<rparr>"]
  have "cgpa (extract_academicInfo (sample_page\<lparr>cgpa_parent_text := ''CGPA''\<rparr>)) = []
         \<longrightarrow> percentage (extract_academicInfo (sample_page\<lparr>cgpa_parent_text := ''CGPA''\<rparr>)) = []"
    unfolding Let_def by blast
  then have c: "percentage (extract_academicInfo (sample_page\<lparr>cgpa_parent_text := ''CGPA''\<rparr>)) = []"
    using other_cgpa by simp
  from percentage_is_derived_from_cgpa[of "sample_page\<lparr>cgpa_parent_text := ''CGPA : 1e21''\<rparr>"]
  have "parseFloat ''1e21'' \<noteq> NaN
          \<and> (\<forall>x. js_sub (js_mul (parseFloat ''1e21'') (Fin 10)) (Fin (5 / 2)) = Fin x
                 \<longrightarrow> 10 ^ 21 \<le> \<bar>x\<bar>)
         \<longrightarrow> percentage (extract_academicInfo (sample_page\<lparr>cgpa_parent_text := ''CGPA : 1e21''\<rparr>))
               = toString (js_sub (js_mul (parseFloat ''1e21'') (Fin 10)) (Fin (5 / 2))) @ ''%''"
    unfolding Let_def other_cgpa by blast
  then have d: "percentage (extract_academicInfo (sample_page\<lparr>cgpa_parent_text := ''CGPA : 1e21''\<rparr>))
                 = toString (Fin 10000000000000000000000) @ ''%''"
    by (simp add: large_cgpa_value large_cgpa_percent)
  from a b c d sample_cgpa other_cgpa show ?thesis by simp
qed

text \<open>
  Against claim C4 as it was stated: the field \<open>1e21\<close> parses as the finite number
  \<open>10\<^bsup>21\<^esup>\<close> and the percentage is \<open>1e+22%\<close>, not the value to two decimals (which is
  \<open>10000000000000000000000.00\<close> for the binary64 result and \<open>9999999999999999999997.50\<close>
  for the exact one); and the field \<open>Infinity\<close>, which parses as no finite number, gets
  the percentage \<open>Infinity%\<close>, not the empty one.
\<close>

theorem large_cgpa_is_not_two_decimals:
  "cgpa (extract_academicInfo (sample_page\<lparr>cgpa_parent_text := ''CGPA : 1e21''\<rparr>)) = ''1e21''
   \<and> parseFloat ''1e21'' = Fin (10 ^ 21)
   \<and> percentage (extract_academicInfo (sample_page\<lparr>cgpa_parent_text := ''CGPA : 1e21''\<rparr>))
     = ''1e+22%''
   \<and> two_decimals (10 ^ 22) = ''10000000000000000000000.00''
   \<and> two_decimals (10 ^ 22 - 5 / 2) = ''9999999999999999999997.50''
   \<and> cgpa (extract_academicInfo (sample_page\<lparr>cgpa_parent_text := ''CGPA : Infinity''\<rparr>))
     = ''Infinity''
   \<and> parseFloat ''Infinity'' = PosInf
   \<and> percentage (extract_academicInfo (sample_page\<lparr>cgpa_parent_text := ''CGPA : Infinity''\<rparr>))
     = ''Infinity%''"
proof -
  have inf: "parseFloat ''Infinity'' = PosInf"
    by (simp add: parseFloat_def strip_sign_def has_sign_def signed_inf_def is_white_space_def)
  have printed: "toFixed (Fin 10000000000000000000000) 2 = ''1e+22''"
    by (simp add: print_eval number_eval)
  have big: "derive_percentage ''1e21'' = ''1e+22%''"
    by (simp add: derive_percentage_def Let_def large_cgpa_value isNaN_def large_cgpa_percent
        printed)
  have unbounded: "derive_percentage ''Infinity'' = ''Infinity%''"
    by (simp add: derive_percentage_def Let_def inf isNaN_def js_sub_def js_mul_def js_add_def
        js_neg_def signed_inf_def is_negative_def toFixed_def toString_def)
  have two: "two_decimals 10000000000000000000000 = ''10000000000000000000000.00''"
    "two_decimals (19999999999999999999995 / 2) = ''9999999999999999999997.50''"
    by (simp_all add: two_decimals_def digits10.simps Let_def floor_rat_eval)
  have pct: "percentage (extract_academicInfo pg) = derive_percentage (cgpa (extract_academicInfo pg))"
    for pg
    by (simp add: extract_academicInfo_def Let_def)
  show ?thesis
    by (simp add: pct other_cgpa big unbounded large_cgpa_value inf two)
qed

section \<open>The activity points\<close>

lemma activity_step_eq:
  "activity_step acc cells =
     (if counts_as_category cells
      then acc @ [\<lparr>category = trim (cells ! 0), points = int_or_zero (cells ! 1)\<rparr>] else acc)"
  by (simp add: activity_step_def counts_as_category_def int_or_zero_def or_else_zero Let_def)

lemma foldl_activity_step:
  "foldl activity_step acc rows =
     acc @ map (\<lambda>cells. \<lparr>category = trim (cells ! 0), points = int_or_zero (cells ! 1)\<rparr>)
             (filter counts_as_category rows)"
  by (induction rows arbitrary: acc) (simp_all add: activity_step_eq)

lemma int_or_zero_not_NaN: "int_or_zero s \<noteq> NaN"
  by (simp add: int_or_zero_def)

lemma sum_points_eq:
  "\<forall>b \<in> set bs. points b \<noteq> NaN \<Longrightarrow> sum_points bs = foldl js_add (Fin 0) (map points bs)"
proof -
  have "\<forall>b \<in> set bs. points b \<noteq> NaN \<Longrightarrow>
        foldl (\<lambda>s b. js_add s (or_else (points b) (Fin 0))) a bs = foldl js_add a (map points bs)"
    for a
    by (induction bs arbitrary: a) (simp_all add: or_else_zero)
  then show "\<forall>b \<in> set bs. points b \<noteq> NaN \<Longrightarrow> ?thesis"
    by (simp add: sum_points_def)
qed

text \<open>
  Claim C5, as amended. The breakdown lists, in document order, the rows of at least two
  cells whose first two cells are not empty and whose first cell holds no \<open>total\<close> in any
  letter case, the points parsed as integers and 0 when they do not parse. The total is
  the last cell of the last row parsed as an integer, and the sum of the breakdown points
  when that cell does not parse or parses as 0. The status is \<open>Completed\<close> when the total
  is at least 100 and \<open>Pending\<close> otherwise.
\<close>

theorem activity_points_extraction:
  "let ap = extract_activityPoints rows;
       last_cell = parseInt (trim (last_text (if rows = [] then [] else last rows)));
       totalPoints = (if last_cell = NaN \<or> last_cell = Fin 0
                      then foldl js_add (Fin 0) (map points (breakdown ap)) else last_cell)
   in breakdown ap
        = map (\<lambda>cells. \<lparr>category = trim (cells ! 0), points = int_or_zero (cells ! 1)\<rparr>)
            (filter counts_as_category rows)
      \<and> points_total ap = toString totalPoints
      \<and> status ap = (if js_ge totalPoints (Fin 100) then ''Completed'' else ''Pending'')
      \<and> required ap = ''100''"
proof -
  let ?bs = "map (\<lambda>cells. \<lparr>category = trim (cells ! 0), points = int_or_zero (cells ! 1)\<rparr>)
               (filter counts_as_category rows)"
  have bs: "foldl activity_step [] rows = ?bs"
    by (simp add: foldl_activity_step)
  have "\<forall>b \<in> set ?bs. points b \<noteq> NaN"
    by (auto simp: int_or_zero_not_NaN)
  then have sum: "sum_points ?bs = foldl js_add (Fin 0) (map points ?bs)"
    by (rule sum_points_eq)
  show ?thesis
    unfolding extract_activityPoints_def total_points_of_def bs sum Let_def
    by (simp add: or_else_def truthy_def)
qed

text \<open>
  The breakdown \<open>NSS 60, Tech 35\<close> with a total row that does not parse gives the total
  \<open>95\<close> and the status \<open>Pending\<close>.
\<close>

theorem activity_points_extraction_witness:
  "breakdown (extract_activityPoints [[''NSS'', ''60''], [''Tech'', ''35''], [''Total'', ''n/a'']])
     = [\<lparr>category = ''NSS'', points = Fin 60\<rparr>, \<lparr>category = ''Tech'', points = Fin 35\<rparr>]
   \<and> points_total
        (extract_activityPoints [[''NSS'', ''60''], [''Tech'', ''35''], [''Total'', ''n/a'']])
     = ''95''
   \<and> status (extract_activityPoints [[''NSS'', ''60''], [''Tech'', ''35''], [''Total'', ''n/a'']])
     = ''Pending''"
proof -
  have keep: "counts_as_category [''NSS'', ''60'']" "counts_as_category [''Tech'', ''35'']"
    "\<not> counts_as_category [''Total'', ''n/a'']"
    by (simp_all add: counts_as_category_def toUpperCase_def upper_char_def text_eval)
  have cells: "int_or_zero ''60'' = Fin 60" "int_or_zero ''35'' = Fin 35"
    "parseInt ''n/a'' = NaN"
    by (simp_all add: int_or_zero_def parseInt_def number_eval text_eval)
  have sum: "js_add (js_add (Fin 0) (Fin 60)) (Fin 35) = Fin 95"
    by (simp add: arith_eval number_eval)
  have shown: "toString (Fin 95) = ''95''"
    by (simp add: print_eval number_eval)
  have below: "\<not> js_ge (Fin 95) (Fin 100)"
    by (simp add: js_ge_def)
  from activity_points_extraction[of "[[''NSS'', ''60''], [''Tech'', ''35''], [''Total'', ''n/a'']]"]
  show ?thesis
    by (simp add: Let_def keep cells last_text_def sum shown below trim_def is_white_space_def)
qed

text \<open>
  Against claim C5 as it was stated: a last cell \<open>0\<close> parses, as the integer 0, and the
  total is nevertheless the sum of the breakdown.
\<close>

theorem zero_total_cell_falls_back:
  "parseInt ''0'' = Fin 0
   \<and> points_total (extract_activityPoints [[''NSS'', ''60''], [''Total'', ''0'']]) = ''60''"
  by (simp add: extract_activityPoints_def activity_step_def total_points_of_def sum_points_def
      parseInt_def last_text_def toUpperCase_def upper_char_def number_eval text_eval
      print_eval arith_eval)


section \<open>The attendance\<close>

lemma ratio_text_eq: "ratio_text a t = percent_of a t"
  by (auto simp: ratio_text_def percent_of_def truthy_def toFixed_percent_text)

lemma attendance_step_eq:
  "attendance_step acc (i, cells) =
     (if 4 \<le> length cells \<and> 0 < i then acc @ [subject_of_row cells] else acc)"
  by (simp add: attendance_step_def subject_of_row_def int_or_zero_def or_else_zero
      ratio_text_eq or_text_def Let_def)

lemma foldl_attendance_step_later:
  "0 < i \<Longrightarrow>
   foldl attendance_step acc (enumerate i rows)
     = acc @ map subject_of_row (filter (\<lambda>cells. 4 \<le> length cells) rows)"
  by (induction rows arbitrary: acc i) (simp_all add: attendance_step_eq)

lemma foldl_attendance_step:
  "foldl attendance_step [] (enumerate 0 rows)
     = map subject_of_row (filter (\<lambda>cells. 4 \<le> length cells) (tl rows))"
  by (cases rows) (simp_all add: attendance_step_eq foldl_attendance_step_later)

lemma foldl_totals:
  "foldl (\<lambda>(a, t) s. (js_add a (attended s), js_add t (attended_total s))) (a0, t0) subs
     = (foldl js_add a0 (map attended subs), foldl js_add t0 (map attended_total subs))"
  by (induction subs arbitrary: a0 t0) simp_all

text \<open>
  Claim C6, as amended. Every table row but the first that has at least four cells gives
  one subject record, in document order: attended and total parsed as integers (0 when
  they do not parse), and as percentage the text of the fourth cell when it is not empty,
  else \<open>0%\<close> when the total is zero, else \<open>attended / total * 100\<close> in binary64 arithmetic
  followed by \<open>%\<close>: in decimal notation with exactly two decimals when that value is
  finite and below \<open>10\<^bsup>21\<^esup>\<close> in magnitude, and printed as \<open>Number::toString\<close> prints it
  otherwise. The overall percentage is the same function of the sums of attended and
  total over the subjects, so \<open>0%\<close> when the sum of the totals is zero or no number.
\<close>

theorem attendance_extraction:
  "let att = extract_attendance rows stamp;
       a = foldl js_add (Fin 0) (map attended (attendance_subjects att));
       t = foldl js_add (Fin 0) (map attended_total (attendance_subjects att))
   in attendance_subjects att
        = map subject_of_row (filter (\<lambda>cells. 4 \<le> length cells) (tl rows))
      \<and> overall att = percent_of a t
      \<and> (\<forall>x. t \<noteq> Fin 0 \<and> t \<noteq> NaN \<and> js_mul (js_div a t) (Fin 100) = Fin x \<and> \<bar>x\<bar> < 10 ^ 21
              \<longrightarrow> overall att = two_decimals x @ ''%'')
      \<and> (t = Fin 0 \<or> t = NaN \<longrightarrow> overall att = ''0%'')"
proof -
  have subs: "attendance_subjects (extract_attendance rows stamp)
                = map subject_of_row (filter (\<lambda>cells. 4 \<le> length cells) (tl rows))"
    by (simp add: extract_attendance_def Let_def foldl_attendance_step)
  have all: "overall (extract_attendance rows stamp)
               = percent_of
                   (foldl js_add (Fin 0)
                      (map attended (attendance_subjects (extract_attendance rows stamp))))
                   (foldl js_add (Fin 0)
                      (map attended_total (attendance_subjects (extract_attendance rows stamp))))"
    by (simp add: extract_attendance_def Let_def foldl_attendance_step foldl_totals
        ratio_text_eq)
  show ?thesis
    unfolding Let_def
    using subs all by (auto simp: percent_of_def percent_text_def)
qed

text \<open>
  The subjects \<open>(34, 40)\<close> and \<open>(30, 35)\<close> give the overall percentage \<open>85.33%\<close>, and a
  document with nothing but its first row gives \<open>0%\<close>.
\<close>

theorem attendance_extraction_witness:
  "attendance_subjects (extract_attendance sample_attendance_rows ''now'')
     = [\<lparr>subject_title = ''DS'', attended = Fin 34, attended_total = Fin 40,
         subject_percentage = ''85.00%''\<rparr>,
        \<lparr>subject_title = ''OS'', attended = Fin 30, attended_total = Fin 35,
         subject_percentage = ''85.71%''\<rparr>]
   \<and> js_mul (js_div (Fin 64) (Fin 75)) (Fin 100) = Fin (3002399751580331 / 35184372088832)
   \<and> overall (extract_attendance sample_attendance_rows ''now'') = ''85.33%''
   \<and> overall (extract_attendance [[''Subject'', ''Attended'', ''Total'', ''Percentage'']] ''now'')
     = ''0%''"
proof -
  have cells: "int_or_zero ''34'' = Fin 34" "int_or_zero ''40'' = Fin 40"
    "int_or_zero ''30'' = Fin 30" "int_or_zero ''35'' = Fin 35"
    by (simp_all add: int_or_zero_def parseInt_def number_eval text_eval)
  have each: "percent_of (Fin 34) (Fin 40) = ''85.00%''"
    "percent_of (Fin 30) (Fin 35) = ''85.71%''"
    by (simp_all add: percent_of_def percent_text_def two_decimals_def digits10.simps
        arith_eval number_eval)
  have sums: "js_add (js_add (Fin 0) (Fin 34)) (Fin 30) = Fin 64"
    "js_add (js_add (Fin 0) (Fin 40)) (Fin 35) = Fin 75"
    by (simp_all add: arith_eval number_eval)
  have ratio: "js_mul (js_div (Fin 64) (Fin 75)) (Fin 100)
                 = Fin (3002399751580331 / 35184372088832)"
    by (simp add: arith_eval number_eval)
  have shown: "two_decimals (3002399751580331 / 35184372088832) = ''85.33''"
    by (simp add: two_decimals_def digits10.simps Let_def floor_rat_eval)
  have small: "\<bar>3002399751580331 / 35184372088832 :: rat\<bar> < 10 ^ 21"
    by simp
  note sample = attendance_extraction[of sample_attendance_rows "''now''", unfolded Let_def]
  have subs: "attendance_subjects (extract_attendance sample_attendance_rows ''now'')
     = [\<lparr>subject_title = ''DS'', attended = Fin 34, attended_total = Fin 40,
         subject_percentage = ''85.00%''\<rparr>,
        \<lparr>subject_title = ''OS'', attended = Fin 30, attended_total = Fin 35,
         subject_percentage = ''85.71%''\<rparr>]"
    unfolding sample[THEN conjunct1]
    by (simp add: sample_attendance_rows_def subject_of_row_def cells each
        trim_def is_white_space_def)
  have all: "overall (extract_attendance sample_attendance_rows ''now'') = ''85.33%''"
    using sample[THEN conjunct2, THEN conjunct2, THEN conjunct1, THEN spec,
        of "3002399751580331 / 35184372088832"] small
    unfolding subs
    by (simp add: sums ratio shown)
  note header = attendance_extraction
      [of "[[''Subject'', ''Attended'', ''Total'', ''Percentage'']]" "''now''", unfolded Let_def]
  have first: "attendance_subjects
          (extract_attendance [[''Subject'', ''Attended'', ''Total'', ''Percentage'']] ''now'')
        = []"
    unfolding header[THEN conjunct1] by simp
  have none: "overall (extract_attendance [[''Subject'', ''Attended'', ''Total'', ''Percentage'']]
                ''now'') = ''0%''"
    using header[THEN conjunct2, THEN conjunct2, THEN conjunct2]
    unfolding first by simp
  from subs ratio all none show ?thesis by simp
qed

text \<open>
  Against claim C6 as it was stated. A row with the total 0 and no percentage cell gets
  \<open>0%\<close>, which is no ratio to two decimals, and so does the overall percentage of a
  document with no subject row. A row with attended \<open>10\<^bsup>19\<^esup>\<close> of total 1 gets \<open>1e+21%\<close>,
  which is not the value to two decimals either. And a first row of four \<open>td\<close> cells,
  which is no header row, yields no subject record.
\<close>

theorem attendance_percentage_exceptions:
  "attendance_subjects (extract_attendance [[], [''Maths'', ''0'', ''0'', []]] ''now'')
     = [\<lparr>subject_title = ''Maths'', attended = Fin 0, attended_total = Fin 0,
         subject_percentage = ''0%''\<rparr>]
   \<and> overall (extract_attendance [[], [''Maths'', ''0'', ''0'', []]] ''now'') = ''0%''
   \<and> overall (extract_attendance [] ''now'') = ''0%''
   \<and> attendance_subjects
        (extract_attendance [[], [''Maths'', ''10000000000000000000'', ''1'', []]] ''now'')
     = [\<lparr>subject_title = ''Maths'', attended = Fin (10 ^ 19), attended_total = Fin 1,
         subject_percentage = ''1e+21%''\<rparr>]
   \<and> overall (extract_attendance [[], [''Maths'', ''10000000000000000000'', ''1'', []]] ''now'')
     = ''1e+21%''
   \<and> two_decimals (10 ^ 21) = ''1000000000000000000000.00''
   \<and> attendance_subjects (extract_attendance [[''DS'', ''34'', ''40'', []]] ''now'') = []"
proof -
  have zero: "parseInt ''0'' = Fin 0"
    by (simp add: parseInt_def number_eval text_eval)
  have one: "parseInt ''1'' = Fin 1"
    by (simp add: parseInt_def number_eval text_eval)
  have many: "parseInt ''10000000000000000000'' = Fin 10000000000000000000"
    by (simp add: parseInt_def number_eval text_eval)
  have none: "ratio_text (Fin 0) (Fin 0) = ''0%''"
    by (simp add: ratio_text_def truthy_def)
  have ratio: "js_mul (js_div (Fin 10000000000000000000) (Fin 1)) (Fin 100)
                 = Fin 1000000000000000000000"
    by (simp add: arith_eval number_eval)
  have printed: "toFixed (Fin 1000000000000000000000) 2 = ''1e+21''"
    by (simp add: print_eval number_eval)
  have large: "ratio_text (Fin 10000000000000000000) (Fin 1) = ''1e+21%''"
    by (simp add: ratio_text_def truthy_def ratio printed)
  have sums: "js_add (Fin 0) (Fin 10000000000000000000) = Fin 10000000000000000000"
    "js_add (Fin 0) (Fin 1) = Fin 1" "js_add (Fin 0) (Fin 0) = Fin 0"
    by (simp_all add: arith_eval number_eval)
  have two: "two_decimals 1000000000000000000000 = ''1000000000000000000000.00''"
    by (simp add: two_decimals_def digits10.simps Let_def floor_rat_eval)
  show ?thesis
    by (simp add: extract_attendance_def attendance_step_def or_text_def or_else_def truthy_def
        trim_def is_white_space_def Let_def zero one many none large sums two)
qed

end
